theory Spec2Isabelle
  imports Complex_Main "HOL-Library.AList"
begin

section \<open>JavaScript objects\<close>

text \<open>
  A plain JavaScript object with string keys is an association list in insertion order:
  reading a property is \<open>map_of\<close> (a missing property reads as \<open>None\<close>, the
  source's \<open>undefined\<close>), assigning a property is \<open>AList.update\<close> (an existing key keeps
  its place, a new key goes to the end), and \<open>Object.values\<close> lists the values in that
  order. The keys that occur here are row identifiers of the backend, never array indices.
\<close>

type_synonym 'v js_object = "(string \<times> 'v) list"

section \<open>Data model\<close>

text \<open>
  \<open>interface Chapter\<close> of \<open>CourseLearning.tsx\<close>; the fields carry the prefix \<open>ch_\<close>
  because several interfaces of the source share the field name \<open>id\<close>.
\<close>

record Chapter =
  ch_id :: string
  ch_title :: string
  ch_content :: string
  ch_video_url :: string
  ch_order_index :: int
  ch_is_preview :: bool
  ch_has_start_quiz :: bool
  ch_has_end_quiz :: bool

text \<open>
  A quiz attempt as stored in \<open>quiz_attempts\<close>. Two writers exist and they store
  different properties, so a property that one of them omits is optional here:
  \<open>handleQuizComplete\<close> writes \<open>score, passed, completed_at, quiz_type\<close>;
  \<open>handleSubmitQuiz\<close> writes \<open>quiz_id, score, passed, answers, completed_at,
  is_start_quiz, is_end_quiz\<close>. The score is \<open>None\<close> for JavaScript's \<open>NaN\<close>.
\<close>

record QuizAttempt =
  att_quiz_id :: "string option"
  att_score :: "int option"
  att_passed :: bool
  att_answers :: "string js_object option"
  att_completed_at :: string
  att_quiz_type :: "string option"
  att_is_start_quiz :: "bool option"
  att_is_end_quiz :: "bool option"

text \<open>
  The column \<open>quiz_attempts\<close> has the source type \<open>any\<close>. The two writers store
  either an object keyed by quiz id or an array. A JavaScript array is an object too:
  besides its elements it can carry named properties, which \<open>Object.values\<close> lists
  after the elements and which JSON serialisation drops.
\<close>

datatype quiz_attempts =
    AttemptsObject "QuizAttempt js_object"
  | AttemptsArray "QuizAttempt list" "QuizAttempt js_object"

fun Object_values :: "quiz_attempts \<Rightarrow> QuizAttempt list" where
  "Object_values (AttemptsObject props) = map snd props"
| "Object_values (AttemptsArray elems props) = elems @ map snd props"

text \<open>
  \<open>interface Progress\<close>. A progress object built by a spread of a missing entry lacks
  fields, so the timestamps and the attempts are optional; \<open>completed\<close> is only ever
  tested for truthiness, where \<open>undefined\<close> and \<open>false\<close> agree.
\<close>

record Progress =
  pr_completed :: bool
  pr_started_at :: "string option"
  pr_completed_at :: "string option"
  pr_quiz_attempts :: "quiz_attempts option"

text \<open>\<open>interface Quiz\<close> and \<open>interface QuizQuestion\<close> of the quiz component.\<close>

record Quiz =
  qz_id :: string
  qz_title :: string
  qz_chapter_id :: string
  qz_is_start_quiz :: bool
  qz_is_end_quiz :: bool
  qz_passing_score :: int

datatype question_type = multiple_choice | true_false

record QuizQuestion =
  qq_id :: string
  qq_quiz_id :: string
  qq_question :: string
  qq_type :: question_type
  qq_options :: "string list"
  qq_correct_answer :: string
  qq_explanation :: string
  qq_order_index :: int

text \<open>\<open>interface Course\<close> of the dashboard, and the four columns the course page selects.\<close>

datatype course_type = public | university

record Course =
  co_id :: string
  co_title :: string
  co_description :: string
  co_price :: rat
  co_currency :: string
  co_type :: course_type
  co_category :: string
  co_thumbnail_url :: "string option"
  co_university_id :: "string option"
  co_is_active :: bool
  co_is_free :: bool

record CourseInfo =
  ci_id :: string
  ci_title :: string
  ci_description :: string
  ci_category :: string

text \<open>
  The profile of the signed-in user, as the pages read it from the authentication
  context: \<open>user_id\<close>, \<open>name\<close>, \<open>email\<close>, \<open>role\<close>, \<open>university_id\<close> and
  \<open>purchased_courses\<close> (which the source guards with \<open>?.\<close> and \<open>|| []\<close>).
\<close>

record Profile =
  pf_user_id :: string
  pf_name :: string
  pf_email :: string
  pf_role :: string
  pf_university_id :: "string option"
  pf_purchased_courses :: "string list option"

text \<open>
  A row of the table \<open>student_progress\<close>, as a query returns it and as an upsert sends
  it. A column that is null, or that an upsert leaves out, is \<open>None\<close>.
\<close>

record ProgressRow =
  row_user_id :: string
  row_course_id :: "string option"
  row_chapter_id :: string
  row_started_at :: "string option"
  row_completed_at :: "string option"
  row_completed :: "bool option"
  row_quiz_attempts :: "quiz_attempts option"
  row_updated_at :: "string option"

section \<open>Effects\<close>

text \<open>
  The pages talk to the backend through a client whose calls are awaited. An awaited call
  either rejects (the \<open>await\<close> throws) or resolves to \<open>{ data, error }\<close>; the source
  tests \<open>error\<close> itself where it cares (\<open>if (error) throw error\<close>). The outcome of each
  call is an argument of the handler that makes it.
\<close>

datatype backend_error = BackendError (code: string)

datatype 'a response = Resolved 'a "backend_error option" | Rejected

text \<open>
  What a handler leaves behind outside the component state: the toasts shown, the
  navigations requested, and the writes that the backend accepted (a write whose call
  failed stores nothing).
\<close>

datatype variant = Default | Destructive

datatype toast = Toast (toast_title: string) (toast_description: string) (toast_variant: variant)

datatype backend_write =
    ProfileUpdate "string option" "string list"
  | ProgressUpsert ProgressRow "string option"

record effects =
  toasts :: "toast list"
  navigations :: "string list"
  persisted :: "backend_write list"

text \<open>The text of a number inside a template string; \<open>None\<close> is \<open>NaN\<close>.\<close>

fun digits :: "nat \<Rightarrow> string" where
  "digits n = (if n < 10 then [char_of (48 + n)]
               else digits (n div 10) @ [char_of (48 + n mod 10)])"

declare digits.simps [simp del]

definition Number_toString :: "int option \<Rightarrow> string" where
  "Number_toString x =
     (case x of
        None \<Rightarrow> ''NaN''
      | Some i \<Rightarrow> if i < 0 then ''-'' @ digits (nat (- i)) else digits (nat i))"

text \<open>\<open>x || y\<close> on an optional string: the empty string is falsy as well.\<close>

definition or_else :: "string option \<Rightarrow> string \<Rightarrow> string" where
  "or_else x y = (case x of None \<Rightarrow> y | Some v \<Rightarrow> if v = [] then y else v)"

section \<open>Numbers\<close>

text \<open>
  A JavaScript number is an IEEE 754 double. The values that occur in the percentages
  below are finite and non-negative, and such a double is the rational number it denotes.
  \<open>binary64\<close> rounds a non-negative rational below \<open>2 ^ 1024\<close> to the nearest double,
  ties to even: a double has a 53-bit significand, so between \<open>2 ^ e\<close> and
  \<open>2 ^ (e + 1)\<close> the doubles are the multiples of \<open>2 ^ (e - 52)\<close>; the exponent is at
  least \<open>- 1022\<close> (below that the doubles are subnormal and keep that spacing), which is
  the fuel of \<open>log2_lt\<close>. Division and multiplication round the exact result once.
  \<open>Math.round\<close> returns the nearest integer, a tie going up.
\<close>

definition rne :: "rat \<Rightarrow> int" where
  "rne x =
     (let f = \<lfloor>x\<rfloor>; d = x - of_int f
      in if d < 1 / 2 then f
         else if 1 / 2 < d then f + 1
         else if even f then f else f + 1)"

primrec log2_ge :: "nat \<Rightarrow> rat \<Rightarrow> int" where
  "log2_ge 0 x = 0"
| "log2_ge (Suc n) x = (if x < 2 then 0 else 1 + log2_ge n (x / 2))"

primrec log2_lt :: "nat \<Rightarrow> rat \<Rightarrow> int" where
  "log2_lt 0 x = 0"
| "log2_lt (Suc n) x = (if 1 \<le> x then 0 else log2_lt n (2 * x) - 1)"

definition exponent :: "rat \<Rightarrow> int" where
  "exponent x = (if 1 \<le> x then log2_ge 1023 x else log2_lt 1022 x)"

definition pow2 :: "int \<Rightarrow> rat" where
  "pow2 e = (if 0 \<le> e then 2 ^ nat e else 1 / 2 ^ nat (- e))"

definition binary64 :: "rat \<Rightarrow> rat" where
  "binary64 x =
     (if x = 0 then 0
      else let ulp = pow2 (exponent x - 52) in of_int (rne (x / ulp)) * ulp)"

definition js_divide :: "rat \<Rightarrow> rat \<Rightarrow> rat" where
  "js_divide x y = binary64 (x / y)"

definition js_multiply :: "rat \<Rightarrow> rat \<Rightarrow> rat" where
  "js_multiply x y = binary64 (x * y)"

definition Math_round :: "rat \<Rightarrow> int" where
  "Math_round x = \<lfloor>x + 1 / 2\<rfloor>"

section \<open>The course page\<close>

text \<open>
  The state of the component \<open>CourseLearning\<close> (its \<open>useState\<close> cells), on top of the
  effects. The route parameter \<open>courseId\<close> and the \<open>profile\<close> of the authentication
  context are arguments of the handlers.
\<close>

record CourseLearning = effects +
  course :: "CourseInfo option"
  chapters :: "Chapter list"
  currentChapter :: "Chapter option"
  progress :: "Progress js_object"
  isLoading :: bool
  completionPercentage :: int
  currentQuiz :: "Quiz option"
  quizQuestions :: "QuizQuestion list"
  showQuiz :: bool

fun failed :: "'a response \<Rightarrow> bool" where
  "failed Rejected = True"
| "failed (Resolved d e) = (e \<noteq> None)"

subsection \<open>Loading the page\<close>

definition hasAccess :: "Profile \<Rightarrow> string \<Rightarrow> bool" where
  "hasAccess profile courseId =
     ((case pf_purchased_courses profile of
         None \<Rightarrow> False
       | Some purchased \<Rightarrow> courseId \<in> set purchased)
      \<or> pf_role profile = ''admin'')"

definition row_to_progress :: "ProgressRow \<Rightarrow> Progress" where
  "row_to_progress p =
     \<lparr>pr_completed = (row_completed p = Some True), pr_started_at = row_started_at p,
      pr_completed_at = row_completed_at p, pr_quiz_attempts = row_quiz_attempts p\<rparr>"

definition progressMap :: "ProgressRow list option \<Rightarrow> Progress js_object" where
  "progressMap progressData =
     (case progressData of
        None \<Rightarrow> []
      | Some rows \<Rightarrow> fold (\<lambda>p m. AList.update (row_chapter_id p) (row_to_progress p) m) rows [])"

text \<open>The \<open>catch\<close> block of \<open>fetchCourseData\<close>, followed by its \<open>finally\<close>.\<close>

definition fetchCourseData_catch :: "CourseLearning \<Rightarrow> CourseLearning" where
  "fetchCourseData_catch s =
     s\<lparr>toasts := toasts s @ [Toast ''Error'' ''Failed to load course data.'' Destructive],
       isLoading := False\<rparr>"

definition setChapters :: "Chapter list option \<Rightarrow> CourseLearning \<Rightarrow> CourseLearning" where
  "setChapters chaptersData s =
     (case chaptersData of
        None \<Rightarrow> s\<lparr>chapters := []\<rparr>
      | Some [] \<Rightarrow> s\<lparr>chapters := []\<rparr>
      | Some (first # rest) \<Rightarrow> s\<lparr>chapters := first # rest, currentChapter := Some first\<rparr>)"

definition fetchCourseData ::
  "string option \<Rightarrow> Profile option \<Rightarrow> CourseInfo option response \<Rightarrow>
   Chapter list option response \<Rightarrow> ProgressRow list option response \<Rightarrow>
   CourseLearning \<Rightarrow> CourseLearning" where
  "fetchCourseData courseId profile courseR chaptersR progressR s =
     (case courseId of
        None \<Rightarrow> s
      | Some cid \<Rightarrow>
     (case profile of
        None \<Rightarrow> s
      | Some p \<Rightarrow>
          if cid = [] then s
          else if \<not> hasAccess p cid then
            s\<lparr>toasts := toasts s @
                 [Toast ''Access Denied'' ''You don't have access to this course.'' Destructive],
              navigations := navigations s @ [''/dashboard''],
              isLoading := False\<rparr>
          else
            (case courseR of
               Resolved courseData None \<Rightarrow>
                 (case chaptersR of
                    Resolved chaptersData None \<Rightarrow>
                      (case progressR of
                         Resolved progressData None \<Rightarrow>
                           (setChapters chaptersData (s\<lparr>course := courseData\<rparr>))
                             \<lparr>progress := progressMap progressData, isLoading := False\<rparr>
                       | _ \<Rightarrow>
                           fetchCourseData_catch
                             (setChapters chaptersData (s\<lparr>course := courseData\<rparr>)))
                  | _ \<Rightarrow> fetchCourseData_catch (s\<lparr>course := courseData\<rparr>))
             | Resolved courseData (Some e) \<Rightarrow> fetchCourseData_catch s
             | Rejected \<Rightarrow> fetchCourseData_catch s)))"

subsection \<open>Progress aggregation\<close>

definition calculateProgress :: "CourseLearning \<Rightarrow> CourseLearning" where
  "calculateProgress s =
     (let completedChapters =
            length (filter (\<lambda>chapter. case map_of (progress s) (ch_id chapter) of
                                         None \<Rightarrow> False
                                       | Some p \<Rightarrow> pr_completed p) (chapters s));
          percentage =
            (if length (chapters s) > 0
             then Math_round (js_multiply
                    (js_divide (of_nat completedChapters) (of_nat (length (chapters s)))) 100)
             else 0)
      in s\<lparr>completionPercentage := percentage\<rparr>)"

subsection \<open>Completing a chapter\<close>

text \<open>\<open>Array.prototype.findIndex\<close>: the first index that satisfies the test, or \<open>-1\<close>.\<close>

fun findIndex :: "('a \<Rightarrow> bool) \<Rightarrow> 'a list \<Rightarrow> int" where
  "findIndex P [] = - 1"
| "findIndex P (x # xs) =
     (if P x then 0 else (let i = findIndex P xs in if i < 0 then - 1 else i + 1))"

text \<open>The spread \<open>...prev[chapterId]\<close>: the entry, or no properties when it is missing.\<close>

definition spread_progress :: "Progress js_object \<Rightarrow> string \<Rightarrow> Progress" where
  "spread_progress prev chapterId =
     (case map_of prev chapterId of
        None \<Rightarrow> \<lparr>pr_completed = False, pr_started_at = None, pr_completed_at = None,
                  pr_quiz_attempts = None\<rparr>
      | Some p \<Rightarrow> p)"

definition markChapterAsCompleted ::
  "string option \<Rightarrow> Profile option \<Rightarrow> string \<Rightarrow> unit response \<Rightarrow> string \<Rightarrow>
   CourseLearning \<Rightarrow> CourseLearning" where
  "markChapterAsCompleted courseId profile now upsertR chapterId s =
     (case profile of
        None \<Rightarrow> s
      | Some p \<Rightarrow>
          if failed upsertR then
            s\<lparr>toasts := toasts s @ [Toast ''Error'' ''Failed to save progress.'' Destructive]\<rparr>
          else
            (let row = \<lparr>row_user_id = pf_user_id p, row_course_id = courseId,
                        row_chapter_id = chapterId,
                        row_started_at =
                          Some (or_else (pr_started_at (spread_progress (progress s) chapterId)) now),
                        row_completed_at = Some now, row_completed = Some True,
                        row_quiz_attempts = None, row_updated_at = None\<rparr>;
                 currentIndex = findIndex (\<lambda>ch. ch_id ch = chapterId) (chapters s)
             in s\<lparr>persisted := persisted s @ [ProgressUpsert row (Some ''user_id,chapter_id'')],
                  progress :=
                    AList.update chapterId
                      ((spread_progress (progress s) chapterId)
                         \<lparr>pr_completed_at := Some now, pr_completed := True\<rparr>)
                      (progress s),
                  toasts := toasts s @
                    [Toast ''Chapter Completed!'' ''Great job! Moving to the next chapter.'' Default],
                  currentChapter :=
                    (if currentIndex < int (length (chapters s)) - 1
                     then Some (chapters s ! nat (currentIndex + 1))
                     else currentChapter s)\<rparr>))"

subsection \<open>Recording a quiz attempt\<close>

text \<open>
  \<open>quizAttempts[currentQuiz.id] = attemptData\<close> assigns a named property, on an array as
  on an object; what the upsert sends is the JSON text of the value.
\<close>

fun set_property :: "string \<Rightarrow> QuizAttempt \<Rightarrow> quiz_attempts \<Rightarrow> quiz_attempts" where
  "set_property k v (AttemptsObject props) = AttemptsObject (AList.update k v props)"
| "set_property k v (AttemptsArray elems props) = AttemptsArray elems (AList.update k v props)"

fun JSON_value :: "quiz_attempts \<Rightarrow> quiz_attempts" where
  "JSON_value (AttemptsObject props) = AttemptsObject props"
| "JSON_value (AttemptsArray elems props) = AttemptsArray elems []"

definition quiz_toast :: "int option \<Rightarrow> bool \<Rightarrow> toast" where
  "quiz_toast score passed =
     Toast (if passed then ''Quiz Passed!'' else ''Quiz Completed'')
       (''You scored '' @ Number_toString score @ ''%. '' @
          (if passed then ''Great job!'' else ''Keep practicing!''))
       (if passed then Default else Destructive)"

definition handleQuizComplete_catch :: "CourseLearning \<Rightarrow> CourseLearning" where
  "handleQuizComplete_catch s =
     s\<lparr>toasts := toasts s @ [Toast ''Error'' ''Failed to save quiz results.'' Destructive]\<rparr>"

definition attemptData :: "Quiz \<Rightarrow> string \<Rightarrow> int option \<Rightarrow> bool \<Rightarrow> QuizAttempt" where
  "attemptData quiz now score passed =
     \<lparr>att_quiz_id = None, att_score = score, att_passed = passed, att_answers = None,
      att_completed_at = now,
      att_quiz_type = Some (if qz_is_start_quiz quiz then ''start'' else ''end''),
      att_is_start_quiz = None, att_is_end_quiz = None\<rparr>"

definition stored_attempts :: "ProgressRow option \<Rightarrow> quiz_attempts option" where
  "stored_attempts currentProgress =
     (case currentProgress of None \<Rightarrow> None | Some row \<Rightarrow> row_quiz_attempts row)"

definition handleQuizComplete ::
  "string option \<Rightarrow> Profile option \<Rightarrow> string \<Rightarrow> ProgressRow option response \<Rightarrow>
   unit response \<Rightarrow> int option \<Rightarrow> bool \<Rightarrow> CourseLearning \<Rightarrow> CourseLearning" where
  "handleQuizComplete courseId profile now fetchR upsertR score passed s =
     (case currentQuiz s of
        None \<Rightarrow> s
      | Some quiz \<Rightarrow>
     (case profile of
        None \<Rightarrow> s
      | Some p \<Rightarrow>
     (case currentChapter s of
        None \<Rightarrow> s
      | Some chapter \<Rightarrow>
     (case fetchR of
        Rejected \<Rightarrow> handleQuizComplete_catch s
      | Resolved currentProgress fetchError \<Rightarrow>
          if (case fetchError of None \<Rightarrow> False | Some e \<Rightarrow> code e \<noteq> ''PGRST116'')
          then handleQuizComplete_catch s
          else
            (let quizAttempts =
                   set_property (qz_id quiz) (attemptData quiz now score passed)
                     (case stored_attempts currentProgress of
                        None \<Rightarrow> AttemptsObject []
                      | Some stored \<Rightarrow> stored);
                 row = \<lparr>row_user_id = pf_user_id p, row_course_id = courseId,
                        row_chapter_id = ch_id chapter,
                        row_started_at =
                          Some (or_else (case currentProgress of
                                           None \<Rightarrow> None
                                         | Some r \<Rightarrow> row_started_at r) now),
                        row_completed_at = None,
                        row_completed =
                          Some (case currentProgress of
                                  None \<Rightarrow> False
                                | Some r \<Rightarrow> row_completed r = Some True),
                        row_quiz_attempts = Some (JSON_value quizAttempts),
                        row_updated_at = None\<rparr>
             in if failed upsertR then handleQuizComplete_catch s
                else
                  s\<lparr>persisted := persisted s @ [ProgressUpsert row (Some ''user_id,chapter_id'')],
                    progress :=
                      AList.update (ch_id chapter)
                        ((spread_progress (progress s) (ch_id chapter))
                           \<lparr>pr_quiz_attempts := Some quizAttempts\<rparr>)
                        (progress s),
                    showQuiz := False, currentQuiz := None, quizQuestions := [],
                    toasts := toasts s @ [quiz_toast score passed]\<rparr>)))))"

subsection \<open>Chapter-content access gate\<close>

definition hasCompletedStartQuiz :: "CourseLearning \<Rightarrow> string \<Rightarrow> bool" where
  "hasCompletedStartQuiz s chapterId =
     (case map_of (progress s) chapterId of
        None \<Rightarrow> False
      | Some chapterProgress \<Rightarrow>
          (case pr_quiz_attempts chapterProgress of
             None \<Rightarrow> False
           | Some attempts \<Rightarrow>
               list_ex (\<lambda>attempt. att_quiz_type attempt = Some ''start'' \<and> att_passed attempt)
                 (Object_values attempts)))"

definition hasCompletedEndQuiz :: "CourseLearning \<Rightarrow> string \<Rightarrow> bool" where
  "hasCompletedEndQuiz s chapterId =
     (case map_of (progress s) chapterId of
        None \<Rightarrow> False
      | Some chapterProgress \<Rightarrow>
          (case pr_quiz_attempts chapterProgress of
             None \<Rightarrow> False
           | Some attempts \<Rightarrow>
               list_ex (\<lambda>attempt. att_quiz_type attempt = Some ''end'' \<and> att_passed attempt)
                 (Object_values attempts)))"

definition canAccessChapterContent :: "CourseLearning \<Rightarrow> Chapter \<Rightarrow> bool" where
  "canAccessChapterContent s chapter =
     (if \<not> ch_has_start_quiz chapter then True
      else hasCompletedStartQuiz s (ch_id chapter))"

subsection \<open>Opening a quiz\<close>

text \<open>
  \<open>fetchQuizData\<close>: the chapter id and the start flag select the quiz in the query; the
  replies of the two queries are arguments. A reply without a quiz makes \<open>quizData.id\<close>
  throw. The button Take Quiz, which calls it for the start quiz, is rendered while the
  current chapter has a start quiz that is not yet passed.
\<close>

definition fetchQuizData_catch :: "CourseLearning \<Rightarrow> CourseLearning" where
  "fetchQuizData_catch s =
     s\<lparr>toasts := toasts s @ [Toast ''Error'' ''Failed to load quiz.'' Destructive]\<rparr>"

definition fetchQuizData ::
  "Quiz option response \<Rightarrow> QuizQuestion list option response \<Rightarrow>
   CourseLearning \<Rightarrow> CourseLearning" where
  "fetchQuizData quizR questionsR s =
     (case quizR of
        Resolved (Some quizData) None \<Rightarrow>
          (case questionsR of
             Resolved questionsData None \<Rightarrow>
               s\<lparr>currentQuiz := Some quizData,
                 quizQuestions := (case questionsData of None \<Rightarrow> [] | Some qs \<Rightarrow> qs),
                 showQuiz := True\<rparr>
           | _ \<Rightarrow> fetchQuizData_catch s)
      | _ \<Rightarrow> fetchQuizData_catch s)"

definition take_quiz_offered :: "CourseLearning \<Rightarrow> bool" where
  "take_quiz_offered s =
     (case currentChapter s of
        None \<Rightarrow> False
      | Some c \<Rightarrow> ch_has_start_quiz c \<and> \<not> hasCompletedStartQuiz s (ch_id c))"

section \<open>The quiz component\<close>

text \<open>
  The state of the component \<open>QuizTaker\<close>. Its props \<open>quiz\<close> and \<open>questions\<close> are
  arguments; \<open>onQuizComplete_calls\<close> lists the calls made to the callback prop
  \<open>onQuizComplete\<close>, which the course page binds to \<open>handleQuizComplete\<close>.
\<close>

record QuizTaker = effects +
  currentQuestionIndex :: int
  answers :: "string js_object"
  showResults :: bool
  score :: "int option"
  isSubmitting :: bool
  onQuizComplete_calls :: "(int option \<times> bool) list"

definition QuizTaker_init :: QuizTaker where
  "QuizTaker_init =
     \<lparr>toasts = [], navigations = [], persisted = [], currentQuestionIndex = 0, answers = [],
      showResults = False, score = Some 0, isSubmitting = False, onQuizComplete_calls = []\<rparr>"

subsection \<open>Handlers\<close>

definition handleAnswerChange :: "string \<Rightarrow> string \<Rightarrow> QuizTaker \<Rightarrow> QuizTaker" where
  "handleAnswerChange questionId answer s = s\<lparr>answers := AList.update questionId answer (answers s)\<rparr>"

definition handleNext :: "QuizQuestion list \<Rightarrow> QuizTaker \<Rightarrow> QuizTaker" where
  "handleNext questions s =
     (if currentQuestionIndex s < int (length questions) - 1
      then s\<lparr>currentQuestionIndex := currentQuestionIndex s + 1\<rparr>
      else s)"

definition handlePrevious :: "QuizTaker \<Rightarrow> QuizTaker" where
  "handlePrevious s =
     (if currentQuestionIndex s > 0
      then s\<lparr>currentQuestionIndex := currentQuestionIndex s - 1\<rparr>
      else s)"

text \<open>The loop of \<open>handleSubmitQuiz\<close> that counts the correct answers.\<close>

definition correctAnswers :: "QuizQuestion list \<Rightarrow> string js_object \<Rightarrow> nat" where
  "correctAnswers questions ans =
     fold (\<lambda>question n. if map_of ans (qq_id question) = Some (qq_correct_answer question)
                          then n + 1 else n) questions 0"

text \<open>With no question the quotient is \<open>0 / 0\<close>, which is \<open>NaN\<close>, and so is the score.\<close>

definition calculatedScore :: "QuizQuestion list \<Rightarrow> string js_object \<Rightarrow> int option" where
  "calculatedScore questions ans =
     (if questions = [] then None
      else Some (Math_round (js_multiply
             (js_divide (of_nat (correctAnswers questions ans)) (of_nat (length questions)))
             100)))"

text \<open>\<open>score >= quiz.passing_score\<close>; a comparison with \<open>NaN\<close> is false.\<close>

definition passes :: "Quiz \<Rightarrow> int option \<Rightarrow> bool" where
  "passes quiz sc = (case sc of None \<Rightarrow> False | Some n \<Rightarrow> qz_passing_score quiz \<le> n)"

definition quizAttempt :: "Quiz \<Rightarrow> string \<Rightarrow> int option \<Rightarrow> string js_object \<Rightarrow> QuizAttempt" where
  "quizAttempt quiz now sc ans =
     \<lparr>att_quiz_id = Some (qz_id quiz), att_score = sc, att_passed = passes quiz sc,
      att_answers = Some ans, att_completed_at = now, att_quiz_type = None,
      att_is_start_quiz = Some (qz_is_start_quiz quiz),
      att_is_end_quiz = Some (qz_is_end_quiz quiz)\<rparr>"

definition updatedQuizAttempts :: "ProgressRow option \<Rightarrow> QuizAttempt \<Rightarrow> QuizAttempt list" where
  "updatedQuizAttempts progressData attempt =
     (case stored_attempts progressData of
        None \<Rightarrow> [attempt]
      | Some (AttemptsArray elems props) \<Rightarrow> elems @ [attempt]
      | Some (AttemptsObject props) \<Rightarrow> [attempt])"

definition handleSubmitQuiz_catch :: "QuizTaker \<Rightarrow> QuizTaker" where
  "handleSubmitQuiz_catch s =
     s\<lparr>toasts := toasts s @ [Toast ''Error'' ''Failed to save quiz results'' Destructive]\<rparr>"

text \<open>
  \<open>handleSubmitQuiz\<close>. The three awaited calls are \<open>auth.getUser\<close> (its data is the
  user's id, if signed in), the select of the progress row, and the upsert. The handler
  reads \<open>data\<close> from the first two and ignores what the upsert resolves to.
\<close>

definition handleSubmitQuiz ::
  "Quiz \<Rightarrow> QuizQuestion list \<Rightarrow> string \<Rightarrow> string option response \<Rightarrow>
   ProgressRow option response \<Rightarrow> unit response \<Rightarrow> QuizTaker \<Rightarrow> QuizTaker" where
  "handleSubmitQuiz quiz questions now userR selectR upsertR s =
     (let sc = calculatedScore questions (answers s);
          passed = passes quiz sc;
          s1 = s\<lparr>score := sc, showResults := True, isSubmitting := False\<rparr>
      in case userR of
           Rejected \<Rightarrow> handleSubmitQuiz_catch s1
         | Resolved None userError \<Rightarrow> s1
         | Resolved (Some uid) userError \<Rightarrow>
             (case selectR of
                Rejected \<Rightarrow> handleSubmitQuiz_catch s1
              | Resolved progressData selectError \<Rightarrow>
                  (let row = \<lparr>row_user_id = uid,
                              row_course_id =
                                (case progressData of None \<Rightarrow> None | Some r \<Rightarrow> row_course_id r),
                              row_chapter_id = qz_chapter_id quiz,
                              row_started_at =
                                Some (or_else (case progressData of
                                                 None \<Rightarrow> None
                                               | Some r \<Rightarrow> row_started_at r) now),
                              row_completed_at = None, row_completed = None,
                              row_quiz_attempts =
                                Some (AttemptsArray
                                  (updatedQuizAttempts progressData
                                     (quizAttempt quiz now sc (answers s))) []),
                              row_updated_at = Some now\<rparr>
                   in case upsertR of
                        Rejected \<Rightarrow> handleSubmitQuiz_catch s1
                      | Resolved u upsertError \<Rightarrow>
                          s1\<lparr>persisted := persisted s1 @
                                (if upsertError = None then [ProgressUpsert row None] else []),
                             toasts := toasts s1 @ [quiz_toast sc passed],
                             onQuizComplete_calls := onQuizComplete_calls s1 @ [(sc, passed)]\<rparr>)))"

subsection \<open>What the component renders\<close>

text \<open>
  \<open>questions[currentQuestionIndex]\<close> is \<open>undefined\<close> out of range. The question view is
  rendered when the results are not shown and there is a current question; it holds the
  radio group, the button Previous, and either Submit (on the last question) or Next.
  \<open>canProceed\<close> is the truthiness of \<open>answers[currentQuestion.id]\<close>: a non-empty string.
\<close>

definition currentQuestion :: "QuizQuestion list \<Rightarrow> QuizTaker \<Rightarrow> QuizQuestion option" where
  "currentQuestion questions s =
     (if 0 \<le> currentQuestionIndex s \<and> currentQuestionIndex s < int (length questions)
      then Some (questions ! nat (currentQuestionIndex s))
      else None)"

definition question_view :: "QuizQuestion list \<Rightarrow> QuizTaker \<Rightarrow> bool" where
  "question_view questions s = (\<not> showResults s \<and> currentQuestion questions s \<noteq> None)"

definition isLastQuestion :: "QuizQuestion list \<Rightarrow> QuizTaker \<Rightarrow> bool" where
  "isLastQuestion questions s = (currentQuestionIndex s = int (length questions) - 1)"

definition canProceed :: "QuizQuestion list \<Rightarrow> QuizTaker \<Rightarrow> bool" where
  "canProceed questions s =
     (case currentQuestion questions s of
        None \<Rightarrow> False
      | Some q \<Rightarrow> (case map_of (answers s) (qq_id q) of None \<Rightarrow> False | Some a \<Rightarrow> a \<noteq> []))"

definition previous_enabled :: "QuizQuestion list \<Rightarrow> QuizTaker \<Rightarrow> bool" where
  "previous_enabled questions s = (question_view questions s \<and> currentQuestionIndex s \<noteq> 0)"

definition next_offered :: "QuizQuestion list \<Rightarrow> QuizTaker \<Rightarrow> bool" where
  "next_offered questions s = (question_view questions s \<and> \<not> isLastQuestion questions s)"

definition next_enabled :: "QuizQuestion list \<Rightarrow> QuizTaker \<Rightarrow> bool" where
  "next_enabled questions s = (next_offered questions s \<and> canProceed questions s)"

definition submit_offered :: "QuizQuestion list \<Rightarrow> QuizTaker \<Rightarrow> bool" where
  "submit_offered questions s = (question_view questions s \<and> isLastQuestion questions s)"

definition submit_enabled :: "QuizQuestion list \<Rightarrow> QuizTaker \<Rightarrow> bool" where
  "submit_enabled questions s =
     (submit_offered questions s \<and> canProceed questions s \<and> \<not> isSubmitting s)"

subsection \<open>The quiz flow\<close>

text \<open>
  The states the user can reach from the initial one: selecting a radio item of the
  current question, and clicking a button that is rendered and not disabled.
\<close>

inductive reachable :: "Quiz \<Rightarrow> QuizQuestion list \<Rightarrow> QuizTaker \<Rightarrow> bool"
  for quiz :: Quiz and questions :: "QuizQuestion list" where
  initial: "reachable quiz questions QuizTaker_init"
| select_answer:
    "reachable quiz questions s \<Longrightarrow> question_view questions s \<Longrightarrow>
     currentQuestion questions s = Some q \<Longrightarrow>
     reachable quiz questions (handleAnswerChange (qq_id q) answer s)"
| click_next:
    "reachable quiz questions s \<Longrightarrow> next_enabled questions s \<Longrightarrow>
     reachable quiz questions (handleNext questions s)"
| click_previous:
    "reachable quiz questions s \<Longrightarrow> previous_enabled questions s \<Longrightarrow>
     reachable quiz questions (handlePrevious s)"
| click_submit:
    "reachable quiz questions s \<Longrightarrow> submit_enabled questions s \<Longrightarrow>
     reachable quiz questions (handleSubmitQuiz quiz questions now userR selectR upsertR s)"

section \<open>The dashboard\<close>

record CourseProgress =
  cp_course_id :: string
  cp_completed_chapters :: nat
  cp_total_chapters :: nat
  cp_completion_percentage :: int

record StudentDashboard = effects +
  universityCourses :: "Course list"
  publicCourses :: "Course list"
  purchasedCourses :: "Course list"
  dashboard_isLoading :: bool
  courseProgress :: "CourseProgress js_object"

subsection \<open>Loading the course lists\<close>

text \<open>
  \<open>fetchCourses\<close> has no \<open>try\<close>: a call that rejects ends it where it stands. A call
  that resolves with an error is logged and leaves its list as it was.
\<close>

definition fetchCourses_purchased ::
  "Profile option \<Rightarrow> Course list option response \<Rightarrow> StudentDashboard \<Rightarrow> StudentDashboard" where
  "fetchCourses_purchased profile purchasedR s =
     (if (case profile of
            None \<Rightarrow> False
          | Some p \<Rightarrow> (case pf_purchased_courses p of None \<Rightarrow> False | Some l \<Rightarrow> length l > 0))
      then (case purchasedR of
              Rejected \<Rightarrow> s
            | Resolved purchCourses (Some e) \<Rightarrow> s\<lparr>dashboard_isLoading := False\<rparr>
            | Resolved purchCourses None \<Rightarrow>
                s\<lparr>purchasedCourses := (case purchCourses of None \<Rightarrow> [] | Some l \<Rightarrow> l),
                  dashboard_isLoading := False\<rparr>)
      else s\<lparr>dashboard_isLoading := False\<rparr>)"

definition fetchCourses_public ::
  "Profile option \<Rightarrow> Course list option response \<Rightarrow> Course list option response \<Rightarrow>
   StudentDashboard \<Rightarrow> StudentDashboard" where
  "fetchCourses_public profile publicR purchasedR s =
     (case publicR of
        Rejected \<Rightarrow> s
      | Resolved pubCourses (Some e) \<Rightarrow> fetchCourses_purchased profile purchasedR s
      | Resolved pubCourses None \<Rightarrow>
          fetchCourses_purchased profile purchasedR
            (s\<lparr>publicCourses := (case pubCourses of None \<Rightarrow> [] | Some l \<Rightarrow> l)\<rparr>))"

definition fetchCourses ::
  "Profile option \<Rightarrow> Course list option response \<Rightarrow> Course list option response \<Rightarrow>
   Course list option response \<Rightarrow> StudentDashboard \<Rightarrow> StudentDashboard" where
  "fetchCourses profile universityR publicR purchasedR s =
     (let s0 = s\<lparr>dashboard_isLoading := True\<rparr>
      in if (case profile of
               None \<Rightarrow> False
             | Some p \<Rightarrow> (case pf_university_id p of None \<Rightarrow> False | Some u \<Rightarrow> u \<noteq> []))
         then (case universityR of
                 Rejected \<Rightarrow> s0
               | Resolved uniCourses (Some e) \<Rightarrow> fetchCourses_public profile publicR purchasedR s0
               | Resolved uniCourses None \<Rightarrow>
                   fetchCourses_public profile publicR purchasedR
                     (s0\<lparr>universityCourses := (case uniCourses of None \<Rightarrow> [] | Some l \<Rightarrow> l)\<rparr>))
         else fetchCourses_public profile publicR purchasedR s0)"

subsection \<open>Progress per purchased course\<close>

text \<open>
  One round of the loop of \<open>fetchCourseProgress\<close>: \<open>chapters\<close> is the data of the query
  for the course's chapter ids, \<open>completed\<close> the data of the query for the user's
  progress rows of the course with \<open>completed = true\<close>.
\<close>

definition courseProgressEntry ::
  "string \<Rightarrow> string list option \<Rightarrow> string list option \<Rightarrow> CourseProgress" where
  "courseProgressEntry courseId chaptersData completedData =
     (let totalChapters = (case chaptersData of None \<Rightarrow> 0 | Some l \<Rightarrow> length l);
          completedChapters = (case completedData of None \<Rightarrow> 0 | Some l \<Rightarrow> length l);
          completionPercentage =
            (if totalChapters > 0
             then Math_round (js_multiply
                    (js_divide (of_nat completedChapters) (of_nat totalChapters)) 100)
             else 0)
      in \<lparr>cp_course_id = courseId, cp_completed_chapters = completedChapters,
          cp_total_chapters = totalChapters, cp_completion_percentage = completionPercentage\<rparr>)"

definition fetchCourseProgress ::
  "Profile option \<Rightarrow> (string \<Rightarrow> string list option) \<Rightarrow> (string \<Rightarrow> string list option) \<Rightarrow>
   StudentDashboard \<Rightarrow> StudentDashboard" where
  "fetchCourseProgress profile chaptersOf completedOf s =
     (case profile of
        None \<Rightarrow> s
      | Some p \<Rightarrow>
          (case pf_purchased_courses p of
             None \<Rightarrow> s
           | Some [] \<Rightarrow> s
           | Some (c # cs) \<Rightarrow>
               s\<lparr>courseProgress :=
                    fold (\<lambda>courseId progressData.
                            AList.update courseId
                              (courseProgressEntry courseId (chaptersOf courseId)
                                 (completedOf courseId)) progressData)
                      (c # cs) []\<rparr>))"

subsection \<open>The course card\<close>

text \<open>
  What a \<open>CourseCard\<close> offers: a link to the course page when the card is rendered as
  purchased or as a university course, the buttons Preview and purchase otherwise. The
  dashboard renders every entry of \<open>universityCourses\<close> with \<open>isUniversityCourse\<close>, every
  entry of \<open>purchasedCourses\<close> with \<open>isPurchased\<close>.
\<close>

datatype card_action = ContinueLearning string | PreviewOrPurchase

definition CourseCard :: "Course \<Rightarrow> bool \<Rightarrow> bool \<Rightarrow> card_action" where
  "CourseCard c isPurchased isUniversityCourse =
     (if isPurchased \<or> isUniversityCourse then ContinueLearning (''/course/'' @ co_id c)
      else PreviewOrPurchase)"

subsection \<open>Purchasing\<close>

text \<open>\<open>profile?.purchased_courses || []\<close>\<close>

definition purchased_or_empty :: "Profile option \<Rightarrow> string list" where
  "purchased_or_empty profile =
     (case profile of
        None \<Rightarrow> []
      | Some p \<Rightarrow> (case pf_purchased_courses p of None \<Rightarrow> [] | Some l \<Rightarrow> l))"

definition handlePurchaseCourse ::
  "Profile option \<Rightarrow> unit response \<Rightarrow> Course list option response \<Rightarrow>
   Course list option response \<Rightarrow> Course list option response \<Rightarrow>
   string \<Rightarrow> Course \<Rightarrow> StudentDashboard \<Rightarrow> StudentDashboard" where
  "handlePurchaseCourse profile updateR universityR publicR purchasedR courseId c s =
     (if co_is_free c then
        (let updatedPurchasedCourses = purchased_or_empty profile @ [courseId]
         in if failed updateR then
              s\<lparr>toasts := toasts s @
                   [Toast ''Error'' ''Failed to add course. Please try again.'' Destructive]\<rparr>
            else
              fetchCourses profile universityR publicR purchasedR
                (s\<lparr>persisted := persisted s @
                      [ProfileUpdate (map_option pf_user_id profile) updatedPurchasedCourses],
                   toasts := toasts s @
                      [Toast ''Course Added!'' ''Free course has been added to your library.''
                         Default]\<rparr>))
      else
        s\<lparr>toasts := toasts s @
             [Toast ''Payment Integration'' ''Payment system coming soon!'' Default]\<rparr>)"

section \<open>Notions used in the theorems\<close>

text \<open>Of a write accepted by the backend: the attempts it stores, and the row it addresses.\<close>

fun upserted_attempts :: "backend_write \<Rightarrow> quiz_attempts option" where
  "upserted_attempts (ProgressUpsert row conflict) = row_quiz_attempts row"
| "upserted_attempts (ProfileUpdate uid purchased) = None"

fun upsert_key :: "backend_write \<Rightarrow> (string \<times> string \<times> string option) option" where
  "upsert_key (ProgressUpsert row conflict) = Some (row_user_id row, row_chapter_id row, conflict)"
| "upsert_key (ProfileUpdate uid purchased) = None"

text \<open>
  The percentage of \<open>k\<close> in \<open>n\<close> as the spec states it, \<open>round(100 * k / n)\<close> and 0 for
  \<open>n = 0\<close>, up to the rounding of an exact half: when \<open>100 * k / n\<close> lies exactly
  halfway between two integers (that is, when \<open>2 * n\<close> divides \<open>200 * k + n\<close>), the
  integer below is admitted as well.
\<close>

definition nearest_percentage :: "int \<Rightarrow> nat \<Rightarrow> nat \<Rightarrow> bool" where
  "nearest_percentage p k n =
     (0 \<le> p \<and> p \<le> 100 \<and>
      (if n = 0 then p = 0
       else (p = Math_round (100 * of_nat k / of_nat n) \<or>
             p = Math_round (100 * of_nat k / of_nat n) - 1) \<and>
            (\<not> 2 * n dvd 200 * k + n \<longrightarrow> p = Math_round (100 * of_nat k / of_nat n))))"

text \<open>
  The invariant of the quiz flow: every question before the current one has an entry in
  \<open>answers\<close>.
\<close>

definition answered_before :: "QuizQuestion list \<Rightarrow> QuizTaker \<Rightarrow> bool" where
  "answered_before questions s =
     list_all (\<lambda>q. map_of (answers s) (qq_id q) \<noteq> None)
       (take (nat (currentQuestionIndex s)) questions)"

section \<open>Example data\<close>

definition CourseLearning_init :: CourseLearning where
  "CourseLearning_init =
     \<lparr>toasts = [], navigations = [], persisted = [], course = None, chapters = [],
      currentChapter = None, progress = [], isLoading = True, completionPercentage = 0,
      currentQuiz = None, quizQuestions = [], showQuiz = False\<rparr>"

definition StudentDashboard_init :: StudentDashboard where
  "StudentDashboard_init =
     \<lparr>toasts = [], navigations = [], persisted = [], universityCourses = [],
      publicCourses = [], purchasedCourses = [], dashboard_isLoading = True,
      courseProgress = []\<rparr>"

definition example_chapter :: Chapter where
  "example_chapter =
     \<lparr>ch_id = ''ch1'', ch_title = ''Intro'', ch_content = ''text'', ch_video_url = ''v'',
      ch_order_index = 0, ch_is_preview = False, ch_has_start_quiz = True,
      ch_has_end_quiz = False\<rparr>"

definition example_start_attempt :: QuizAttempt where
  "example_start_attempt =
     \<lparr>att_quiz_id = None, att_score = Some 80, att_passed = True, att_answers = None,
      att_completed_at = ''2024-01-01T00:00:00.000Z'', att_quiz_type = Some ''start'',
      att_is_start_quiz = None, att_is_end_quiz = None\<rparr>"

definition example_progress :: "Progress js_object" where
  "example_progress =
     [(''ch1'', \<lparr>pr_completed = False, pr_started_at = Some ''2024-01-01T00:00:00.000Z'',
        pr_completed_at = None,
        pr_quiz_attempts = Some (AttemptsObject [(''quiz1'', example_start_attempt)])\<rparr>)]"

definition example_student :: Profile where
  "example_student =
     \<lparr>pf_user_id = ''u1'', pf_name = ''Ada'', pf_email = ''ada@example.org'',
      pf_role = ''student'', pf_university_id = Some ''uni1'',
      pf_purchased_courses = Some [''c1'']\<rparr>"

definition example_free_course :: Course where
  "example_free_course =
     \<lparr>co_id = ''c1'', co_title = ''Logic'', co_description = ''d'', co_price = 0,
      co_currency = ''USD'', co_type = public, co_category = ''cs'',
      co_thumbnail_url = None, co_university_id = None, co_is_active = True,
      co_is_free = True\<rparr>"

definition example_priced_course :: Course where
  "example_priced_course =
     \<lparr>co_id = ''c2'', co_title = ''Proofs'', co_description = ''d'', co_price = 20,
      co_currency = ''USD'', co_type = public, co_category = ''cs'',
      co_thumbnail_url = None, co_university_id = None, co_is_active = True,
      co_is_free = False\<rparr>"

definition example_university_course :: Course where
  "example_university_course =
     \<lparr>co_id = ''c3'', co_title = ''Algebra'', co_description = ''d'', co_price = 0,
      co_currency = ''USD'', co_type = university, co_category = ''math'',
      co_thumbnail_url = None, co_university_id = Some ''uni1'', co_is_active = True,
      co_is_free = False\<rparr>"

definition example_quiz :: Quiz where
  "example_quiz =
     \<lparr>qz_id = ''quiz1'', qz_title = ''Warm-up'', qz_chapter_id = ''ch1'',
      qz_is_start_quiz = True, qz_is_end_quiz = False, qz_passing_score = 58\<rparr>"

definition example_question :: "nat \<Rightarrow> QuizQuestion" where
  "example_question i =
     \<lparr>qq_id = ''question-'' @ digits i, qq_quiz_id = ''quiz1'', qq_question = ''Is it so?'',
      qq_type = true_false, qq_options = [], qq_correct_answer = ''True'',
      qq_explanation = ''It is.'', qq_order_index = int i\<rparr>"

text \<open>A quiz of two questions, and the flow that answers both.\<close>

definition two_questions :: "QuizQuestion list" where
  "two_questions = [example_question 0, example_question 1]"

definition answered_first :: QuizTaker where
  "answered_first = handleAnswerChange (qq_id (example_question 0)) ''True'' QuizTaker_init"

definition answered_all :: QuizTaker where
  "answered_all =
     handleAnswerChange (qq_id (example_question 1)) ''False''
       (handleNext two_questions answered_first)"

text \<open>A quiz of \<open>n\<close> questions, answered with the first \<open>k\<close> answers correct.\<close>

definition example_questions :: "nat \<Rightarrow> QuizQuestion list" where
  "example_questions n = map example_question [0..<n]"

definition example_answers :: "nat \<Rightarrow> nat \<Rightarrow> string js_object" where
  "example_answers n k =
     map (\<lambda>i. (qq_id (example_question i), if i < k then ''True'' else ''False'')) [0..<n]"

definition example_submission :: "nat \<Rightarrow> nat \<Rightarrow> QuizTaker" where
  "example_submission n k =
     QuizTaker_init\<lparr>currentQuestionIndex := int n - 1, answers := example_answers n k\<rparr>"

text \<open>A course of \<open>n\<close> chapters, the first \<open>k\<close> of them completed.\<close>

definition example_chapters :: "nat \<Rightarrow> Chapter list" where
  "example_chapters n =
     map (\<lambda>i. \<lparr>ch_id = ''chapter-'' @ digits i, ch_title = ''t'', ch_content = ''c'',
                ch_video_url = ''v'', ch_order_index = int i, ch_is_preview = False,
                ch_has_start_quiz = False, ch_has_end_quiz = False\<rparr>) [0..<n]"

definition example_completed :: "nat \<Rightarrow> Progress js_object" where
  "example_completed k =
     map (\<lambda>i. (''chapter-'' @ digits i,
                \<lparr>pr_completed = True, pr_started_at = Some ''2024-01-01T00:00:00.000Z'',
                 pr_completed_at = Some ''2024-01-02T00:00:00.000Z'',
                 pr_quiz_attempts = None\<rparr>)) [0..<k]"

definition example_course_page :: "nat \<Rightarrow> nat \<Rightarrow> CourseLearning" where
  "example_course_page n k =
     CourseLearning_init\<lparr>chapters := example_chapters n, progress := example_completed k\<rparr>"

text \<open>The stored progress row of the example chapter, and the page while its quiz is open.\<close>

definition example_row :: ProgressRow where
  "example_row =
     \<lparr>row_user_id = ''u1'', row_course_id = Some ''c1'', row_chapter_id = ''ch1'',
      row_started_at = Some ''2024-01-01T00:00:00.000Z'', row_completed_at = None,
      row_completed = Some False,
      row_quiz_attempts = Some (AttemptsObject [(''quiz1'', example_start_attempt)]),
      row_updated_at = None\<rparr>"

definition example_array_row :: ProgressRow where
  "example_array_row =
     example_row\<lparr>row_quiz_attempts := Some (AttemptsArray [example_start_attempt] [])\<rparr>"

definition example_quiz_page :: CourseLearning where
  "example_quiz_page =
     CourseLearning_init\<lparr>chapters := [example_chapter], currentChapter := Some example_chapter,
       progress := example_progress, isLoading := False, currentQuiz := Some example_quiz,
       showQuiz := True\<rparr>"

text \<open>
  Two submissions of the same start quiz on the course page: the chapter has no progress
  row yet, the first attempt fails with 40, the quiz is taken again and passed with 90.
  \<open>example_first_row\<close> is the row that the first submission upserts and that the
  second one reads back.
\<close>

definition example_fresh_page :: CourseLearning where
  "example_fresh_page =
     CourseLearning_init\<lparr>chapters := [example_chapter], currentChapter := Some example_chapter,
       isLoading := False\<rparr>"

definition example_first_row :: ProgressRow where
  "example_first_row =
     \<lparr>row_user_id = ''u1'', row_course_id = Some ''c1'', row_chapter_id = ''ch1'',
      row_started_at = Some ''2024-02-01T00:00:00.000Z'', row_completed_at = None,
      row_completed = Some False,
      row_quiz_attempts =
        Some (AttemptsObject
          [(''quiz1'', attemptData example_quiz ''2024-02-01T00:00:00.000Z'' (Some 40) False)]),
      row_updated_at = None\<rparr>"

definition first_submission :: CourseLearning where
  "first_submission =
     handleQuizComplete (Some ''c1'') (Some example_student) ''2024-02-01T00:00:00.000Z''
       (Resolved None (Some (BackendError ''PGRST116''))) (Resolved () None) (Some 40) False
       (fetchQuizData (Resolved (Some example_quiz) None) (Resolved (Some two_questions) None)
          example_fresh_page)"

definition second_submission :: CourseLearning where
  "second_submission =
     handleQuizComplete (Some ''c1'') (Some example_student) ''2024-02-02T00:00:00.000Z''
       (Resolved (Some example_first_row) None) (Resolved () None) (Some 90) True
       (fetchQuizData (Resolved (Some example_quiz) None) (Resolved (Some two_questions) None)
          first_submission)"

section \<open>Theorems\<close>

subsection \<open>Auxiliary facts\<close>

lemma update_other: "k \<noteq> k' \<Longrightarrow> map_of (AList.update k' v al) k = map_of al k"
  by (simp add: update_conv')

lemma update_same: "map_of (AList.update k v al) k = Some v"
  by (simp add: update_conv')

lemma fetchCourses_purchased_effects:
  "toasts (fetchCourses_purchased profile purchasedR s) = toasts s \<and>
   navigations (fetchCourses_purchased profile purchasedR s) = navigations s \<and>
   persisted (fetchCourses_purchased profile purchasedR s) = persisted s"
  by (simp add: fetchCourses_purchased_def split: response.splits option.splits)

lemma fetchCourses_public_effects:
  "toasts (fetchCourses_public profile publicR purchasedR s) = toasts s \<and>
   navigations (fetchCourses_public profile publicR purchasedR s) = navigations s \<and>
   persisted (fetchCourses_public profile publicR purchasedR s) = persisted s"
  by (simp add: fetchCourses_public_def fetchCourses_purchased_effects
           split: response.splits option.splits)

lemma fetchCourses_effects:
  "toasts (fetchCourses profile universityR publicR purchasedR s) = toasts s \<and>
   navigations (fetchCourses profile universityR publicR purchasedR s) = navigations s \<and>
   persisted (fetchCourses profile universityR publicR purchasedR s) = persisted s"
  by (simp add: fetchCourses_def fetchCourses_public_effects Let_def
           split: response.splits option.splits)

lemma handleSubmitQuiz_local:
  "currentQuestionIndex (handleSubmitQuiz quiz questions now userR selectR upsertR s) =
     currentQuestionIndex s \<and>
   answers (handleSubmitQuiz quiz questions now userR selectR upsertR s) = answers s \<and>
   showResults (handleSubmitQuiz quiz questions now userR selectR upsertR s) \<and>
   score (handleSubmitQuiz quiz questions now userR selectR upsertR s) =
     calculatedScore questions (answers s)"
  by (simp add: handleSubmitQuiz_def handleSubmitQuiz_catch_def Let_def
           split: response.splits option.splits)

lemma correctAnswers_fold:
  "fold (\<lambda>question n. if P question then n + 1 else n) questions k =
     k + length (filter P questions)"
  by (induction questions arbitrary: k) simp_all

lemma correctAnswers_count:
  "correctAnswers questions ans =
     length (filter (\<lambda>q. map_of ans (qq_id q) = Some (qq_correct_answer q)) questions)"
  by (simp add: correctAnswers_def correctAnswers_fold)

subsection \<open>Double arithmetic\<close>

text \<open>
  Rounding to a double moves a normal value by at most half a unit in the last place, a
  relative error of at most \<open>2 ^ - 53\<close>. For \<open>k \<le> n\<close> and \<open>n\<close> below \<open>2 ^ 40\<close> (an
  array is shorter than \<open>2 ^ 32\<close>) the percentage \<open>Math.round((k / n) * 100)\<close>
  therefore lies between 0 and 100 and is the rounded exact value, except that on an
  exact half it may be the integer below.
\<close>

lemma rne_error: "\<bar>of_int (rne y) - y\<bar> \<le> 1 / 2"
proof -
  have "of_int \<lfloor>y\<rfloor> \<le> y" "y < of_int \<lfloor>y\<rfloor> + 1" by linarith+
  then show ?thesis
    by (auto simp: rne_def Let_def)
qed

lemma rne_nonneg: "0 \<le> y \<Longrightarrow> 0 \<le> rne y"
  by (auto simp: rne_def Let_def)

lemma pow2_pos: "0 < pow2 e"
  by (simp add: pow2_def)

lemma pow2_Suc: "pow2 (e + 1) = 2 * pow2 e"
proof (cases "0 \<le> e")
  case True
  then show ?thesis by (simp add: pow2_def nat_add_distrib)
next
  case False
  then have "nat (- e) = Suc (nat (- (e + 1)))" by simp
  with False show ?thesis by (auto simp: pow2_def)
qed

lemma pow2_pred: "pow2 (e - 1) = pow2 e / 2"
  using pow2_Suc [of "e - 1"] by simp

lemma log2_lt_bound:
  "0 < x \<Longrightarrow> x < 2 \<Longrightarrow>
   x < pow2 (log2_lt n x + 1) \<and> (pow2 (log2_lt n x) \<le> x \<or> log2_lt n x = - int n)"
proof (induction n arbitrary: x)
  case 0
  then show ?case by (simp add: pow2_def)
next
  case (Suc n)
  show ?case
  proof (cases "1 \<le> x")
    case True
    with Suc.prems show ?thesis by (simp add: pow2_def)
  next
    case False
    with Suc.prems have "0 < 2 * x" "2 * x < 2" by simp_all
    from Suc.IH [OF this] False show ?thesis
      by (auto simp: pow2_pred pow2_Suc)
  qed
qed

lemma log2_ge_bound:
  "1 \<le> x \<Longrightarrow> x < 2 ^ Suc n \<Longrightarrow>
   pow2 (log2_ge n x) \<le> x \<and> x < pow2 (log2_ge n x + 1)"
proof (induction n arbitrary: x)
  case 0
  then show ?case by (simp add: pow2_def)
next
  case (Suc n)
  show ?case
  proof (cases "x < 2")
    case True
    with Suc.prems show ?thesis by (simp add: pow2_def)
  next
    case False
    with Suc.prems have half: "1 \<le> x / 2" "x / 2 < 2 ^ Suc n" by simp_all
    define e where "e = log2_ge n (x / 2)"
    from Suc.IH [OF half] have ih: "pow2 e \<le> x / 2" "x / 2 < pow2 (e + 1)"
      by (simp_all add: e_def)
    have eq: "log2_ge (Suc n) x = e + 1"
      using False by (simp add: e_def)
    have p1: "pow2 (e + 1) = 2 * pow2 e" by (rule pow2_Suc)
    have p2: "pow2 (e + 1 + 1) = 2 * pow2 (e + 1)" by (rule pow2_Suc)
    have "pow2 (e + 1) \<le> x \<and> x < pow2 (e + 1 + 1)"
      using ih p1 p2 by linarith
    then show ?thesis by (simp only: eq)
  qed
qed

lemma exponent_bound:
  assumes "0 < x" and "x < 2 ^ 1024"
  shows "x < pow2 (exponent x + 1) \<and> (pow2 (exponent x) \<le> x \<or> exponent x = - 1022)"
proof (cases "1 \<le> x")
  case True
  with assms have "pow2 (log2_ge 1023 x) \<le> x \<and> x < pow2 (log2_ge 1023 x + 1)"
    by (intro log2_ge_bound) simp_all
  with True show ?thesis by (simp add: exponent_def)
next
  case False
  with assms have "x < pow2 (log2_lt 1022 x + 1) \<and>
      (pow2 (log2_lt 1022 x) \<le> x \<or> log2_lt 1022 x = - int 1022)"
    by (intro log2_lt_bound) simp_all
  with False show ?thesis by (simp add: exponent_def)
qed

lemma log2_lt_lower: "0 < x \<Longrightarrow> pow2 (- int n) \<le> x \<Longrightarrow> x < 2 \<Longrightarrow> pow2 (log2_lt n x) \<le> x"
proof (induction n arbitrary: x)
  case 0
  then show ?case by simp
next
  case (Suc n)
  show ?case
  proof (cases "1 \<le> x")
    case True
    then show ?thesis by (simp add: pow2_def)
  next
    case False
    have "pow2 (- int n) = 2 * pow2 (- int (Suc n))"
      using pow2_Suc [of "- int (Suc n)"] by simp
    with Suc.prems False have "0 < 2 * x" "pow2 (- int n) \<le> 2 * x" "2 * x < 2" by simp_all
    from Suc.IH [OF this] False show ?thesis
      by (simp add: pow2_pred)
  qed
qed

lemma binary64_error:
  assumes "pow2 (- 1022) \<le> x" and "x < 2 ^ 1024"
  shows "\<bar>binary64 x - x\<bar> \<le> x / 2 ^ 53"
proof -
  from assms(1) have pos: "0 < x" using pow2_pos [of "- 1022"] by linarith
  let ?e = "exponent x"
  let ?ulp = "pow2 (?e - 52)"
  have lower: "pow2 ?e \<le> x"
  proof (cases "1 \<le> x")
    case True
    with exponent_bound [OF pos assms(2)] assms(1) show ?thesis by auto
  next
    case False
    with pos assms(1) have "pow2 (log2_lt 1022 x) \<le> x"
      by (intro log2_lt_lower) simp_all
    with False show ?thesis by (simp add: exponent_def)
  qed
  have ulp: "?ulp = pow2 ?e / 2 ^ 52"
  proof -
    have "\<And>k. pow2 (?e - int k) = pow2 ?e / 2 ^ k"
    proof -
      fix k show "pow2 (?e - int k) = pow2 ?e / 2 ^ k"
      proof (induction k)
        case 0 then show ?case by simp
      next
        case (Suc k)
        have "pow2 (?e - int (Suc k)) = pow2 (?e - int k - 1)" by (simp add: algebra_simps)
        also have "\<dots> = pow2 (?e - int k) / 2" by (rule pow2_pred)
        finally show ?case using Suc by simp
      qed
    qed
    from this [of 52] show ?thesis by simp
  qed
  have ulp_pos: "0 < ?ulp" by (rule pow2_pos)
  have "\<bar>binary64 x - x\<bar> = \<bar>of_int (rne (x / ?ulp)) * ?ulp - x\<bar>"
    using pos by (simp add: binary64_def Let_def)
  also have "\<dots> = \<bar>of_int (rne (x / ?ulp)) - x / ?ulp\<bar> * ?ulp"
  proof -
    have "of_int (rne (x / ?ulp)) * ?ulp - x = (of_int (rne (x / ?ulp)) - x / ?ulp) * ?ulp"
      using ulp_pos by (simp add: field_simps)
    then show ?thesis using ulp_pos by (simp add: abs_mult)
  qed
  also have "\<dots> \<le> (1 / 2) * ?ulp"
    using rne_error [of "x / ?ulp"] ulp_pos by (intro mult_right_mono) simp_all
  also have "\<dots> = pow2 ?e / 2 ^ 53" by (simp add: ulp)
  also have "\<dots> \<le> x / 2 ^ 53" using lower by (simp add: divide_right_mono)
  finally show ?thesis .
qed

lemma binary64_nonneg: "0 \<le> x \<Longrightarrow> 0 \<le> binary64 x"
  by (simp add: binary64_def Let_def rne_nonneg pow2_pos less_imp_le)

lemma pow2_small: "pow2 (- 1022) \<le> 1 / 2 ^ 40"
proof -
  have "(2::rat) ^ 40 \<le> 2 ^ 1022" by (rule power_increasing) simp_all
  then show ?thesis by (simp add: pow2_def frac_le)
qed

lemma percentage_error:
  assumes "0 < k" and "k \<le> n" and "n < 2 ^ 40"
  shows "\<bar>js_multiply (js_divide (of_nat k) (of_nat n)) 100 - 100 * of_nat k / of_nat n\<bar>
           \<le> 201 / 2 ^ 53"
proof -
  define q :: rat where "q = of_nat k / of_nat n"
  define fq where "fq = binary64 q"
  define fp where "fp = binary64 (fq * 100)"
  from assms have npos: "0 < n" by simp
  have q1: "q \<le> 1" using assms npos by (simp add: q_def)
  have "(1::rat) / 2 ^ 40 \<le> 1 / of_nat n"
  proof -
    from assms(3) have "(of_nat n :: rat) < of_nat (2 ^ 40)" by (simp only: of_nat_less_iff)
    then have "(of_nat n :: rat) \<le> 2 ^ 40" by simp
    with npos show ?thesis by (simp add: frac_le)
  qed
  also have "\<dots> \<le> q"
    using assms(1) npos by (simp add: q_def divide_right_mono)
  finally have qlow: "1 / 2 ^ 40 \<le> q" .
  have big: "(2::rat) \<le> 2 ^ 1024"
    using power_increasing [of 1 1024 "2::rat"] by simp
  from qlow pow2_small have "pow2 (- 1022) \<le> q" by linarith
  moreover from q1 big have "q < 2 ^ 1024" by linarith
  ultimately have "\<bar>fq - q\<bar> \<le> q / 2 ^ 53"
    unfolding fq_def by (rule binary64_error)
  then have e1: "\<bar>fq - q\<bar> \<le> q / 9007199254740992" by simp
  from e1 qlow q1 have fq_low: "q / 2 \<le> fq" and fq_up: "fq \<le> q + q / 9007199254740992"
    by linarith+
  have small: "pow2 (- 1022) \<le> 1 / 1099511627776"
    using pow2_small by simp
  have qlow': "1 / 1099511627776 \<le> q" using qlow by simp
  have "pow2 (- 1022) \<le> fq * 100"
    using fq_low qlow' small by linarith
  moreover have "fq * 100 < 2 ^ 1024"
  proof -
    have "fq * 100 \<le> 200" using fq_up q1 by linarith
    moreover have "(200::rat) < 2 ^ 1024"
    proof -
      have "(2::rat) ^ 8 \<le> 2 ^ 1024" by (rule power_increasing) simp_all
      then show ?thesis by simp
    qed
    ultimately show ?thesis by linarith
  qed
  ultimately have "\<bar>fp - fq * 100\<bar> \<le> fq * 100 / 2 ^ 53"
    unfolding fp_def by (rule binary64_error)
  then have e2: "\<bar>fp - fq * 100\<bar> \<le> fq * 100 / 9007199254740992" by simp
  from e1 e2 fq_up q1 qlow' have "\<bar>fp - 100 * q\<bar> \<le> 201 / 9007199254740992"
    by linarith
  then have "\<bar>fp - 100 * q\<bar> \<le> 201 / 2 ^ 53" by simp
  then show ?thesis
    by (simp add: fp_def fq_def q_def js_multiply_def js_divide_def)
qed

lemma floor_half: "\<lfloor>(1::rat) / 2\<rfloor> = 0"
  by (rule floor_unique) simp_all

lemma percentage_zero: "Math_round (js_multiply (js_divide 0 (of_nat n)) 100) = 0"
  by (simp add: js_multiply_def js_divide_def binary64_def Math_round_def floor_half)

lemma percentage_rounding:
  assumes "0 < n" and "k \<le> n" and "n < 2 ^ 40"
  shows "0 \<le> Math_round (js_multiply (js_divide (of_nat k) (of_nat n)) 100) \<and>
         Math_round (js_multiply (js_divide (of_nat k) (of_nat n)) 100) \<le> 100 \<and>
         (Math_round (js_multiply (js_divide (of_nat k) (of_nat n)) 100) =
            Math_round (100 * of_nat k / of_nat n) \<or>
          Math_round (js_multiply (js_divide (of_nat k) (of_nat n)) 100) =
            Math_round (100 * of_nat k / of_nat n) - 1) \<and>
         (\<not> 2 * n dvd 200 * k + n \<longrightarrow>
            Math_round (js_multiply (js_divide (of_nat k) (of_nat n)) 100) =
              Math_round (100 * of_nat k / of_nat n))"
proof (cases "k = 0")
  case True
  then show ?thesis
    using assms(1) by (simp add: percentage_zero) (simp add: Math_round_def floor_half)
next
  case False
  then have kpos: "0 < k" by simp
  define fp where "fp = js_multiply (js_divide (of_nat k) (of_nat n)) 100"
  define v :: rat where "v = 100 * of_nat k / of_nat n"
  define a where "a = 200 * k + n"
  define b where "b = 2 * n"
  define ib :: rat where "ib = 1 / of_nat b"
  from assms(1) have bpos: "0 < b" by (simp add: b_def)
  from percentage_error [OF kpos assms(2,3)]
  have "\<bar>fp - v\<bar> \<le> 201 / 2 ^ 53" by (simp add: fp_def v_def)
  then have err: "\<bar>fp - v\<bar> \<le> 201 / 9007199254740992" by simp
  have v100: "v \<le> 100"
  proof -
    from assms(1,2) have "(of_nat k :: rat) / of_nat n \<le> 1" by simp
    then show ?thesis by (simp add: v_def)
  qed
  have fp0: "0 \<le> fp"
    unfolding fp_def js_multiply_def js_divide_def
    by (intro binary64_nonneg mult_nonneg_nonneg) simp_all
  have ib_big: "201 / 9007199254740992 < ib"
  proof -
    from assms(3) have "b < 2 ^ 41" by (simp add: b_def)
    then have "(of_nat b :: rat) < of_nat (2 ^ 41)" by (simp only: of_nat_less_iff)
    then have "(of_nat b :: rat) < 2199023255552" by simp
    with bpos have "1 / 2199023255552 < 1 / (of_nat b :: rat)"
      by (intro divide_strict_left_mono) simp_all
    then show ?thesis by (simp add: ib_def)
  qed
  have vhalf: "v + 1 / 2 = of_nat a / of_nat b"
    using assms(1) by (simp add: v_def a_def b_def field_simps)
  have split: "(of_nat a :: rat) / of_nat b = of_nat (a div b) + of_nat (a mod b) * ib"
  proof -
    have "(of_nat a :: rat) = of_nat (b * (a div b) + a mod b)" by simp
    also have "\<dots> = of_nat b * of_nat (a div b) + of_nat (a mod b)" by (simp only: of_nat_add of_nat_mult)
    finally show ?thesis using bpos by (simp add: ib_def field_simps)
  qed
  have exact: "Math_round v = int (a div b)"
    unfolding Math_round_def vhalf by (simp add: floor_divide_of_nat_eq)
  have range: "0 \<le> Math_round fp \<and> Math_round fp \<le> 100"
  proof
    from fp0 have "(0::rat) \<le> fp + 1 / 2" by simp
    then show "0 \<le> Math_round fp" by (simp add: Math_round_def)
    from err v100 have "fp + 1 / 2 < 101" by linarith
    then have "\<lfloor>fp + 1 / 2\<rfloor> < 101" by (simp add: floor_less_iff)
    then show "Math_round fp \<le> 100" by (simp add: Math_round_def)
  qed
  have near: "Math_round fp = Math_round v \<or> Math_round fp = Math_round v - 1"
   and tie: "\<not> b dvd a \<longrightarrow> Math_round fp = Math_round v"
  proof -
    define r where "r = a mod b"
    define m :: rat where "m = of_nat (a div b)"
    from bpos have rb: "r < b" by (simp add: r_def)
    have fr: "of_nat r * ib < 1" "0 \<le> of_nat r * ib"
      using rb bpos by (simp_all add: ib_def)
    have vm: "v + 1 / 2 = m + of_nat r * ib"
      using vhalf split by (simp add: m_def r_def)
    have ib1: "ib \<le> 1" using bpos by (simp add: ib_def)
    show "Math_round fp = Math_round v \<or> Math_round fp = Math_round v - 1"
    proof (cases "r = 0")
      case True
      with vm have "v + 1 / 2 = m" by simp
      with err have "m - 1 \<le> fp + 1 / 2" "fp + 1 / 2 < m + 1" by linarith+
      then have lo: "of_int (int (a div b) - 1) \<le> fp + 1 / 2"
        and hi: "fp + 1 / 2 < of_int (int (a div b)) + 1"
        by (simp_all add: m_def)
      have "\<lfloor>fp + 1 / 2\<rfloor> = int (a div b) - 1 \<or> \<lfloor>fp + 1 / 2\<rfloor> = int (a div b)"
      proof (cases "of_int (int (a div b)) \<le> fp + 1 / 2")
        case True
        with hi have "\<lfloor>fp + 1 / 2\<rfloor> = int (a div b)" by (intro floor_unique)
        then show ?thesis by simp
      next
        case False
        then have "fp + 1 / 2 < of_int (int (a div b) - 1) + 1" by simp
        with lo have "\<lfloor>fp + 1 / 2\<rfloor> = int (a div b) - 1" by (intro floor_unique)
        then show ?thesis by simp
      qed
      with exact show ?thesis by (auto simp: Math_round_def)
    next
      case False
      then have "1 \<le> r" by simp
      then have "ib \<le> of_nat r * ib"
        using bpos by (simp add: ib_def divide_right_mono)
      moreover have "of_nat r * ib \<le> 1 - ib"
      proof -
        from rb have "r + 1 \<le> b" by simp
        then have "(of_nat (r + 1) :: rat) \<le> of_nat b" by (simp only: of_nat_le_iff)
        then have "(of_nat r + 1 :: rat) / of_nat b \<le> 1"
          using bpos by simp
        then show ?thesis by (simp add: ib_def add_divide_distrib)
      qed
      ultimately have "m \<le> fp + 1 / 2" "fp + 1 / 2 < m + 1"
        using vm err ib_big by linarith+
      then have "\<lfloor>fp + 1 / 2\<rfloor> = int (a div b)"
        unfolding m_def by (intro floor_unique) simp_all
      with exact show ?thesis by (simp add: Math_round_def)
    qed
    show "\<not> b dvd a \<longrightarrow> Math_round fp = Math_round v"
    proof
      assume "\<not> b dvd a"
      then have "r \<noteq> 0" by (simp add: r_def dvd_eq_mod_eq_0)
      then have "1 \<le> r" by simp
      then have "ib \<le> of_nat r * ib"
        using bpos by (simp add: ib_def divide_right_mono)
      moreover have "of_nat r * ib \<le> 1 - ib"
      proof -
        from rb have "r + 1 \<le> b" by simp
        then have "(of_nat (r + 1) :: rat) \<le> of_nat b" by (simp only: of_nat_le_iff)
        then have "(of_nat r + 1 :: rat) / of_nat b \<le> 1"
          using bpos by simp
        then show ?thesis by (simp add: ib_def add_divide_distrib)
      qed
      ultimately have "m \<le> fp + 1 / 2" "fp + 1 / 2 < m + 1"
        using vm err ib_big by linarith+
      then have "\<lfloor>fp + 1 / 2\<rfloor> = int (a div b)"
        unfolding m_def by (intro floor_unique) simp_all
      with exact show "Math_round fp = Math_round v" by (simp add: Math_round_def)
    qed
  qed
  from range near tie show ?thesis
    by (simp add: fp_def v_def a_def b_def)
qed

subsection \<open>The access gate\<close>

text \<open>
  C1. A chapter's content is accessible exactly when the chapter has no start quiz, or
  the progress entry of the chapter holds attempts among which one has
  \<open>quiz_type = 'start'\<close> and is passed. In particular a chapter with a start quiz and
  no such attempt is not accessible.
\<close>

theorem canAccessChapterContent_iff:
  "canAccessChapterContent s c \<longleftrightarrow>
     (\<not> ch_has_start_quiz c \<or>
      (\<exists>chapterProgress attempts attempt.
          map_of (progress s) (ch_id c) = Some chapterProgress \<and>
          pr_quiz_attempts chapterProgress = Some attempts \<and>
          attempt \<in> set (Object_values attempts) \<and>
          att_quiz_type attempt = Some ''start'' \<and> att_passed attempt))"
  by (auto simp: canAccessChapterContent_def hasCompletedStartQuiz_def list_ex_iff
           split: option.splits)

theorem canAccessChapterContent_iff_witness:
  "ch_has_start_quiz example_chapter \<and>
   canAccessChapterContent (CourseLearning_init\<lparr>progress := example_progress\<rparr>) example_chapter \<and>
   \<not> canAccessChapterContent CourseLearning_init example_chapter"
  using canAccessChapterContent_iff [of "CourseLearning_init\<lparr>progress := example_progress\<rparr>" example_chapter]
        canAccessChapterContent_iff [of CourseLearning_init example_chapter]
  by (simp add: example_chapter_def example_progress_def example_start_attempt_def
        CourseLearning_init_def)

subsection \<open>Quiz scoring\<close>

lemma passes_iff: "passes quiz (Some n) \<longleftrightarrow> qz_passing_score quiz \<le> n"
  by (simp add: passes_def)

lemma correctAnswers_le: "correctAnswers questions ans \<le> length questions"
  by (simp add: correctAnswers_count)

lemma percentage_nearest:
  assumes "0 < n" and "k \<le> n" and "n < 2 ^ 40"
  shows "nearest_percentage (Math_round (js_multiply (js_divide (of_nat k) (of_nat n)) 100)) k n"
  using percentage_rounding [OF assms] assms(1) by (simp add: nearest_percentage_def)

text \<open>
  C2. For a quiz of N questions (at least one, fewer than \<open>2 ^ 40\<close>) of which K are
  answered with the question's correct answer, the submitted score is a number between 0
  and 100; it is \<open>round(100 * K / N)\<close> whenever \<open>100 * K / N\<close> is not exactly halfway
  between two integers, and otherwise that number or the integer below it. The attempt
  is marked passed exactly when the score is at least the quiz's passing score.
\<close>

theorem handleSubmitQuiz_score:
  assumes "questions \<noteq> []" and "length questions < 2 ^ 40"
  shows "\<exists>sc. score (handleSubmitQuiz quiz questions now userR selectR upsertR s) = Some sc \<and>
           nearest_percentage sc
             (length (filter (\<lambda>q. map_of (answers s) (qq_id q) = Some (qq_correct_answer q))
                questions))
             (length questions) \<and>
           (att_passed (quizAttempt quiz now (Some sc) (answers s)) \<longleftrightarrow>
              qz_passing_score quiz \<le> sc)"
proof -
  from assms(1) have "0 < length questions" by simp
  from percentage_nearest [OF this correctAnswers_le assms(2)] assms(1)
  show ?thesis
    by (simp add: handleSubmitQuiz_local calculatedScore_def correctAnswers_count
          quizAttempt_def passes_def)
qed

text \<open>The spec's example: four questions, three correct, passing score 75.\<close>

theorem handleSubmitQuiz_score_witness:
  "example_questions 4 \<noteq> [] \<and> length (example_questions 4) < 2 ^ 40 \<and>
   score (handleSubmitQuiz (example_quiz\<lparr>qz_passing_score := 75\<rparr>) (example_questions 4)
            ''2024-02-02T00:00:00.000Z'' (Resolved (Some ''u1'') None) (Resolved None None)
            (Resolved () None) (example_submission 4 3)) = Some 75 \<and>
   att_passed (quizAttempt (example_quiz\<lparr>qz_passing_score := 75\<rparr>)
      ''2024-02-02T00:00:00.000Z'' (Some 75) (answers (example_submission 4 3)))"
proof -
  have ne: "example_questions 4 \<noteq> []" by code_simp
  have len: "length (example_questions 4) = 4" by (simp add: example_questions_def)
  then have small: "length (example_questions 4) < 2 ^ 40" by simp
  have k: "length (filter (\<lambda>q. map_of (answers (example_submission 4 3)) (qq_id q) =
                Some (qq_correct_answer q)) (example_questions 4)) = 3"
    by code_simp
  have exact: "Math_round (100 * 3 / 4) = 75" by code_simp
  from handleSubmitQuiz_score [OF ne small, of "example_quiz\<lparr>qz_passing_score := 75\<rparr>"
      "''2024-02-02T00:00:00.000Z''" "Resolved (Some ''u1'') None" "Resolved None None"
      "Resolved () None" "example_submission 4 3"]
  obtain sc where
    sc: "score (handleSubmitQuiz (example_quiz\<lparr>qz_passing_score := 75\<rparr>) (example_questions 4)
            ''2024-02-02T00:00:00.000Z'' (Resolved (Some ''u1'') None) (Resolved None None)
            (Resolved () None) (example_submission 4 3)) = Some sc"
    and near: "nearest_percentage sc 3 4"
    and p: "att_passed (quizAttempt (example_quiz\<lparr>qz_passing_score := 75\<rparr>)
      ''2024-02-02T00:00:00.000Z'' (Some sc) (answers (example_submission 4 3))) \<longleftrightarrow>
        qz_passing_score (example_quiz\<lparr>qz_passing_score := 75\<rparr>) \<le> sc"
    unfolding k len by auto
  from near exact have v: "sc = 75" by (simp add: nearest_percentage_def)
  from sc v p ne small show ?thesis by simp
qed

text \<open>
  The claim as stated fails on an exact half: for forty questions of which twenty-three
  are answered correctly the quotient is the double just below \<open>0.575\<close>, its product
  with \<open>100\<close> the double just below \<open>57.5\<close>, and the score is \<open>57\<close>, whereas
  \<open>100 * 23 / 40 = 57.5\<close> rounds to \<open>58\<close>; with a passing score of \<open>58\<close> the attempt
  fails.
\<close>

theorem handleSubmitQuiz_score_23_of_40:
  "length (example_questions 40) = 40 \<and>
   correctAnswers (example_questions 40) (answers (example_submission 40 23)) = 23 \<and>
   score (handleSubmitQuiz example_quiz (example_questions 40) ''2024-02-02T00:00:00.000Z''
            (Resolved (Some ''u1'') None) (Resolved None None) (Resolved () None)
            (example_submission 40 23)) = Some 57 \<and>
   Math_round (100 * 23 / 40) = 58 \<and>
   qz_passing_score example_quiz = 58 \<and>
   \<not> att_passed (quizAttempt example_quiz ''2024-02-02T00:00:00.000Z'' (Some 57)
         (answers (example_submission 40 23)))"
proof -
  have n: "length (example_questions 40) = 40"
    by (simp add: example_questions_def)
  have k: "correctAnswers (example_questions 40) (answers (example_submission 40 23)) = 23"
    by code_simp
  have sc: "calculatedScore (example_questions 40) (answers (example_submission 40 23)) = Some 57"
    by code_simp
  have exact: "Math_round (100 * 23 / 40) = 58"
    by code_simp
  have p: "qz_passing_score example_quiz = 58 \<and>
     \<not> att_passed (quizAttempt example_quiz ''2024-02-02T00:00:00.000Z'' (Some 57)
         (answers (example_submission 40 23)))"
    by (simp add: quizAttempt_def passes_def example_quiz_def)
  show ?thesis
    using n k sc exact p by (simp add: handleSubmitQuiz_local)
qed

subsection \<open>Progress aggregation\<close>

text \<open>
  C3. For a chapter list of fewer than \<open>2 ^ 40\<close> chapters, of which K have a progress
  entry marked completed (each chapter counted once), the completion percentage lies
  between 0 and 100 and is 0 for an empty list; for N chapters it is
  \<open>round(100 * K / N)\<close> whenever \<open>100 * K / N\<close> is not exactly halfway between two
  integers, and otherwise that number or the integer below it. The dashboard computes the
  same from the number of chapter rows and the number of completed progress rows, when
  the latter does not exceed the former.
\<close>

theorem calculateProgress_percentage:
  assumes "length (chapters s) < 2 ^ 40"
  shows "nearest_percentage (completionPercentage (calculateProgress s))
           (length (filter (\<lambda>c. case map_of (progress s) (ch_id c) of
                                   None \<Rightarrow> False
                                 | Some p \<Rightarrow> pr_completed p) (chapters s)))
           (length (chapters s)) \<and>
         (length completedRows \<le> length chapterRows \<and> length chapterRows < 2 ^ 40 \<longrightarrow>
            nearest_percentage
              (cp_completion_percentage
                 (courseProgressEntry courseId (Some chapterRows) (Some completedRows)))
              (length completedRows) (length chapterRows))"
proof
  show "nearest_percentage (completionPercentage (calculateProgress s))
           (length (filter (\<lambda>c. case map_of (progress s) (ch_id c) of
                                   None \<Rightarrow> False
                                 | Some p \<Rightarrow> pr_completed p) (chapters s)))
           (length (chapters s))"
  proof (cases "chapters s = []")
    case True
    then show ?thesis by (simp add: calculateProgress_def nearest_percentage_def)
  next
    case False
    then have "0 < length (chapters s)" by simp
    from percentage_nearest [OF this length_filter_le assms] False
    show ?thesis by (simp add: calculateProgress_def Let_def)
  qed
  show "length completedRows \<le> length chapterRows \<and> length chapterRows < 2 ^ 40 \<longrightarrow>
            nearest_percentage
              (cp_completion_percentage
                 (courseProgressEntry courseId (Some chapterRows) (Some completedRows)))
              (length completedRows) (length chapterRows)"
  proof (cases "chapterRows = []")
    case True
    then show ?thesis by (simp add: courseProgressEntry_def nearest_percentage_def)
  next
    case False
    then have pos: "0 < length chapterRows" by simp
    show ?thesis
    proof
      assume "length completedRows \<le> length chapterRows \<and> length chapterRows < 2 ^ 40"
      then have le: "length completedRows \<le> length chapterRows"
        and small: "length chapterRows < 2 ^ 40" by simp_all
      from percentage_nearest [OF pos le small] False
      show "nearest_percentage
              (cp_completion_percentage
                 (courseProgressEntry courseId (Some chapterRows) (Some completedRows)))
              (length completedRows) (length chapterRows)"
        by (simp add: courseProgressEntry_def Let_def)
    qed
  qed
qed

text \<open>The spec's example: five chapters, three completed.\<close>

theorem calculateProgress_percentage_witness:
  "length (chapters (example_course_page 5 3)) < 2 ^ 40 \<and>
   completionPercentage (calculateProgress (example_course_page 5 3)) = 60 \<and>
   cp_completion_percentage
     (courseProgressEntry ''c1'' (Some (map ch_id (example_chapters 5)))
        (Some (map fst (example_completed 3)))) = 60"
proof -
  have n: "length (chapters (example_course_page 5 3)) = 5"
    by (simp add: example_course_page_def example_chapters_def)
  then have small: "length (chapters (example_course_page 5 3)) < 2 ^ 40" by simp
  have k: "length (filter (\<lambda>c. case map_of (progress (example_course_page 5 3)) (ch_id c) of
                                   None \<Rightarrow> False
                                 | Some p \<Rightarrow> pr_completed p)
             (chapters (example_course_page 5 3))) = 3"
    by code_simp
  have rows: "length (map fst (example_completed 3)) = 3"
    "length (map ch_id (example_chapters 5)) = 5"
    by (simp_all add: example_completed_def example_chapters_def)
  have exact: "Math_round (100 * 3 / 5) = 60" by code_simp
  note inst = calculateProgress_percentage [OF small, of "map fst (example_completed 3)"
      "map ch_id (example_chapters 5)" "''c1''"]
  from inst have "nearest_percentage
      (completionPercentage (calculateProgress (example_course_page 5 3))) 3 5"
    unfolding k n by simp
  with exact have page: "completionPercentage (calculateProgress (example_course_page 5 3)) = 60"
    by (simp add: nearest_percentage_def)
  from inst have "nearest_percentage
      (cp_completion_percentage
         (courseProgressEntry ''c1'' (Some (map ch_id (example_chapters 5)))
            (Some (map fst (example_completed 3))))) 3 5"
    unfolding rows by simp
  with exact have dash: "cp_completion_percentage
     (courseProgressEntry ''c1'' (Some (map ch_id (example_chapters 5)))
        (Some (map fst (example_completed 3)))) = 60"
    by (simp add: nearest_percentage_def)
  from small page dash show ?thesis by simp
qed

text \<open>
  The claim as stated fails on an exact half: for forty chapters of which twenty-three
  are completed the percentage is \<open>57\<close>, on the course page and on the dashboard,
  whereas \<open>100 * 23 / 40 = 57.5\<close> rounds to \<open>58\<close>.
\<close>

theorem calculateProgress_23_of_40:
  "length (chapters (example_course_page 40 23)) = 40 \<and>
   length (filter (\<lambda>c. case map_of (progress (example_course_page 40 23)) (ch_id c) of
                           None \<Rightarrow> False
                         | Some p \<Rightarrow> pr_completed p)
      (chapters (example_course_page 40 23))) = 23 \<and>
   completionPercentage (calculateProgress (example_course_page 40 23)) = 57 \<and>
   cp_completion_percentage
     (courseProgressEntry ''c1'' (Some (map ch_id (example_chapters 40)))
        (Some (map fst (example_completed 23)))) = 57 \<and>
   Math_round (100 * 23 / 40) = 58"
proof -
  have n: "length (chapters (example_course_page 40 23)) = 40"
    by (simp add: example_course_page_def example_chapters_def)
  have k: "length (filter (\<lambda>c. case map_of (progress (example_course_page 40 23)) (ch_id c) of
                           None \<Rightarrow> False
                         | Some p \<Rightarrow> pr_completed p)
      (chapters (example_course_page 40 23))) = 23"
    by code_simp
  have page: "completionPercentage (calculateProgress (example_course_page 40 23)) = 57"
    by code_simp
  have dash: "cp_completion_percentage
     (courseProgressEntry ''c1'' (Some (map ch_id (example_chapters 40)))
        (Some (map fst (example_completed 23)))) = 57"
    by code_simp
  have exact: "Math_round (100 * 23 / 40) = 58"
    by code_simp
  show ?thesis
    using n k page dash exact by simp
qed

subsection \<open>Purchasing\<close>

text \<open>
  C4. When the update of a free course's purchase succeeds, the list stored in the profile
  is the profile's list with the course id appended (the empty list when the profile has
  none): the id occurs once more than before, and exactly once precisely when it was not
  in the list.
\<close>

theorem handlePurchaseCourse_free:
  assumes "co_is_free c" and "\<not> failed updateR"
  shows "persisted (handlePurchaseCourse profile updateR universityR publicR purchasedR courseId c s) =
           persisted s @
             [ProfileUpdate (map_option pf_user_id profile) (purchased_or_empty profile @ [courseId])] \<and>
         count_list (purchased_or_empty profile @ [courseId]) courseId =
           count_list (purchased_or_empty profile) courseId + 1 \<and>
         (count_list (purchased_or_empty profile @ [courseId]) courseId = 1 \<longleftrightarrow>
            courseId \<notin> set (purchased_or_empty profile))"
  using assms
  by (simp add: handlePurchaseCourse_def fetchCourses_effects Let_def count_list_0_iff)

theorem handlePurchaseCourse_free_witness:
  "co_is_free example_free_course \<and> \<not> failed (Resolved () None) \<and>
   persisted (handlePurchaseCourse (Some example_student) (Resolved () None) Rejected Rejected
      Rejected ''c9'' example_free_course StudentDashboard_init) =
     [ProfileUpdate (Some ''u1'') [''c1'', ''c9'']]"
  using handlePurchaseCourse_free [of example_free_course "Resolved () None" "Some example_student"
      Rejected Rejected Rejected "''c9''" StudentDashboard_init]
  by (simp add: example_free_course_def example_student_def StudentDashboard_init_def
        purchased_or_empty_def)

text \<open>
  The claim as stated fails when the id is already in the list: the stored list then
  holds it twice.
\<close>

theorem handlePurchaseCourse_twice:
  "co_is_free example_free_course \<and>
   purchased_or_empty (Some example_student) = [''c1''] \<and>
   persisted (handlePurchaseCourse (Some example_student) (Resolved () None)
      (Resolved None None) (Resolved None None) (Resolved None None)
      ''c1'' example_free_course StudentDashboard_init) =
     [ProfileUpdate (Some ''u1'') [''c1'', ''c1'']] \<and>
   count_list [''c1'', ''c1''] ''c1'' \<noteq> 1"
  by (simp add: handlePurchaseCourse_def fetchCourses_effects example_free_course_def
        example_student_def StudentDashboard_init_def purchased_or_empty_def)

text \<open>
  C7. Purchasing a priced course shows the toast "Payment Integration" and changes
  nothing else: no write reaches the backend and the component state is as before.
\<close>

theorem handlePurchaseCourse_priced:
  assumes "\<not> co_is_free c"
  shows "handlePurchaseCourse profile updateR universityR publicR purchasedR courseId c s =
           s\<lparr>toasts := toasts s @
                [Toast ''Payment Integration'' ''Payment system coming soon!'' Default]\<rparr> \<and>
         persisted (handlePurchaseCourse profile updateR universityR publicR purchasedR courseId c s) =
           persisted s \<and>
         purchasedCourses (handlePurchaseCourse profile updateR universityR publicR purchasedR courseId c s) =
           purchasedCourses s"
  using assms by (simp add: handlePurchaseCourse_def)

theorem handlePurchaseCourse_priced_witness:
  "\<not> co_is_free example_priced_course \<and>
   handlePurchaseCourse (Some example_student) (Resolved () None) Rejected Rejected Rejected
      ''c2'' example_priced_course StudentDashboard_init =
     StudentDashboard_init\<lparr>toasts :=
        [Toast ''Payment Integration'' ''Payment system coming soon!'' Default]\<rparr>"
  using handlePurchaseCourse_priced [of example_priced_course "Some example_student"
      "Resolved () None" Rejected Rejected Rejected "''c2''" StudentDashboard_init]
  by (simp add: example_priced_course_def StudentDashboard_init_def)

subsection \<open>Authorization of the course page\<close>

lemma fetchCourseData_redirect_iff:
  assumes "courseId = Some cid" and "cid \<noteq> []" and "profile = Some p"
  shows "navigations (fetchCourseData courseId profile courseR chaptersR progressR s) =
           navigations s @ [''/dashboard''] \<longleftrightarrow> \<not> hasAccess p cid"
  using assms
  by (auto simp: fetchCourseData_def fetchCourseData_catch_def setChapters_def
        split: response.splits option.splits list.splits)

text \<open>
  C5. The page redirects exactly the profiles that neither list the course among their
  purchases nor have the role admin. A student whose university the course belongs to,
  and to whom the dashboard therefore offers the link to the course page, is redirected
  with "Access Denied".
\<close>

theorem fetchCourseData_university_course:
  "co_university_id example_university_course = pf_university_id example_student \<and>
   universityCourses (fetchCourses (Some example_student)
      (Resolved (Some [example_university_course]) None) (Resolved None None)
      (Resolved None None) StudentDashboard_init) = [example_university_course] \<and>
   CourseCard example_university_course False True = ContinueLearning ''/course/c3'' \<and>
   fetchCourseData (Some ''c3'') (Some example_student) courseR chaptersR progressR
      CourseLearning_init =
     CourseLearning_init\<lparr>toasts :=
        [Toast ''Access Denied'' ''You don't have access to this course.'' Destructive],
       navigations := [''/dashboard''], isLoading := False\<rparr>"
  by (simp add: fetchCourseData_def hasAccess_def example_student_def
        example_university_course_def CourseLearning_init_def CourseCard_def
        fetchCourses_def fetchCourses_public_def fetchCourses_purchased_def
        StudentDashboard_init_def)

subsection \<open>Persistence of quiz attempts\<close>

lemma handleSubmitQuiz_persisted:
  assumes "userR = Resolved (Some uid) userError" and "selectR = Resolved progressData selectError"
    and "upsertR = Resolved u None"
  shows "map upsert_key (persisted (handleSubmitQuiz quiz questions now userR selectR upsertR t)) =
           map upsert_key (persisted t) @ [Some (uid, qz_chapter_id quiz, None)] \<and>
         map upserted_attempts (persisted (handleSubmitQuiz quiz questions now userR selectR upsertR t)) =
           map upserted_attempts (persisted t) @
             [Some (AttemptsArray
                (updatedQuizAttempts progressData
                   (quizAttempt quiz now (calculatedScore questions (answers t)) (answers t))) [])]"
  using assms by (simp add: handleSubmitQuiz_def Let_def)

lemma updatedQuizAttempts_array:
  "stored_attempts progressData = Some (AttemptsArray elems props) \<Longrightarrow>
   updatedQuizAttempts progressData attempt = elems @ [attempt]"
  by (simp add: updatedQuizAttempts_def)

text \<open>
  What the course page upserts when its read of the row succeeds or finds no row (the
  reply \<open>PGRST116\<close>) and the upsert is accepted.
\<close>

lemma handleQuizComplete_persisted:
  assumes "currentQuiz s = Some quiz" and "profile = Some p" and "currentChapter s = Some c"
    and "fetchR = Resolved currentProgress fetchError"
    and "fetchError = None \<or> fetchError = Some (BackendError ''PGRST116'')"
    and "\<not> failed upsertR"
  shows "map upsert_key (persisted (handleQuizComplete courseId profile now fetchR upsertR sc passed s)) =
           map upsert_key (persisted s) @ [Some (pf_user_id p, ch_id c, Some ''user_id,chapter_id'')] \<and>
         map upserted_attempts (persisted (handleQuizComplete courseId profile now fetchR upsertR sc passed s)) =
           map upserted_attempts (persisted s) @
             [Some (JSON_value (set_property (qz_id quiz) (attemptData quiz now sc passed)
                (case stored_attempts currentProgress of
                   None \<Rightarrow> AttemptsObject [] | Some stored \<Rightarrow> stored)))]"
  using assms by (auto simp: handleQuizComplete_def Let_def)

text \<open>
  On no stored attempts and on a stored object the page stores the object with the entry
  of the quiz set: entries of other quizzes are kept, the entry of the same quiz is
  replaced. On a stored array, as the quiz component writes it, the page stores the array
  as it was: the new attempt is a named property of the array and is not serialised.
\<close>

lemma handleQuizComplete_stores_object:
  "JSON_value (set_property k v (AttemptsObject props)) = AttemptsObject (AList.update k v props) \<and>
   map_of (AList.update k v props) k = Some v \<and>
   (\<forall>k'. k' \<noteq> k \<longrightarrow> map_of (AList.update k v props) k' = map_of props k')"
  by (simp add: update_same update_other)

lemma handleQuizComplete_stores_array:
  "JSON_value (set_property k v (AttemptsArray elems [])) = AttemptsArray elems []"
  by simp

text \<open>
  The quiz component appends to a stored array; on no stored attempts and on a stored
  object, as the page writes it, it stores the new attempt alone.
\<close>

lemma updatedQuizAttempts_first:
  "stored_attempts progressData = None \<Longrightarrow> updatedQuizAttempts progressData attempt = [attempt]"
  by (simp add: updatedQuizAttempts_def)

lemma updatedQuizAttempts_object:
  "stored_attempts progressData = Some (AttemptsObject props) \<Longrightarrow>
   updatedQuizAttempts progressData attempt = [attempt]"
  by (simp add: updatedQuizAttempts_def)

text \<open>
  C6. An attempt record is upserted into the user's progress row of the chapter, but a
  second submission of the same quiz on the course page does not append: the first
  submission (no row yet) stores the attempt under the quiz's id, the quiz is still
  offered because that attempt failed, and the second submission stores the new attempt
  under the same id, so that the first attempt is no longer recorded. The quiz
  component, given a stored array, appends the new attempt to it.
\<close>

theorem handleQuizComplete_resubmission:
  "persisted first_submission = [ProgressUpsert example_first_row (Some ''user_id,chapter_id'')] \<and>
   take_quiz_offered first_submission \<and>
   map upsert_key (persisted second_submission) =
     [Some (''u1'', ''ch1'', Some ''user_id,chapter_id''),
      Some (''u1'', ''ch1'', Some ''user_id,chapter_id'')] \<and>
   map upserted_attempts (persisted second_submission) =
     [Some (AttemptsObject
        [(''quiz1'', attemptData example_quiz ''2024-02-01T00:00:00.000Z'' (Some 40) False)]),
      Some (AttemptsObject
        [(''quiz1'', attemptData example_quiz ''2024-02-02T00:00:00.000Z'' (Some 90) True)])] \<and>
   attemptData example_quiz ''2024-02-01T00:00:00.000Z'' (Some 40) False \<notin>
     set (Object_values (AttemptsObject
        [(''quiz1'', attemptData example_quiz ''2024-02-02T00:00:00.000Z'' (Some 90) True)])) \<and>
   map_option (map att_score \<circ> Object_values) (pr_quiz_attempts
      (spread_progress (progress second_submission) ''ch1'')) = Some [Some 90] \<and>
   map upserted_attempts
     (persisted (handleSubmitQuiz example_quiz two_questions ''2024-02-02T00:00:00.000Z''
        (Resolved (Some ''u1'') None) (Resolved (Some example_array_row) None) (Resolved () None)
        answered_all)) =
     [Some (AttemptsArray
        [example_start_attempt,
         quizAttempt example_quiz ''2024-02-02T00:00:00.000Z'' (Some 50) (answers answered_all)]
        [])]"
  by code_simp

subsection \<open>Failure of a backend call\<close>

lemma markChapterAsCompleted_failed:
  "profile = Some p \<Longrightarrow> failed upsertR \<Longrightarrow>
   markChapterAsCompleted courseId profile now upsertR chapterId s =
     s\<lparr>toasts := toasts s @ [Toast ''Error'' ''Failed to save progress.'' Destructive]\<rparr>"
  by (simp add: markChapterAsCompleted_def)

lemma handleQuizComplete_failed:
  "currentQuiz s = Some quiz \<Longrightarrow> profile = Some p \<Longrightarrow> currentChapter s = Some c \<Longrightarrow>
   failed upsertR \<or> fetchR = Rejected \<or>
     (\<exists>d e. fetchR = Resolved d (Some e) \<and> code e \<noteq> ''PGRST116'') \<Longrightarrow>
   handleQuizComplete courseId profile now fetchR upsertR sc passed s =
     s\<lparr>toasts := toasts s @ [Toast ''Error'' ''Failed to save quiz results.'' Destructive]\<rparr>"
  by (auto simp: handleQuizComplete_def handleQuizComplete_catch_def Let_def
        split: response.splits option.splits)

lemma handlePurchaseCourse_failed:
  "co_is_free c \<Longrightarrow> failed updateR \<Longrightarrow>
   handlePurchaseCourse profile updateR universityR publicR purchasedR courseId c s =
     s\<lparr>toasts := toasts s @
          [Toast ''Error'' ''Failed to add course. Please try again.'' Destructive]\<rparr>"
  by (simp add: handlePurchaseCourse_def Let_def)

text \<open>
  C8. Completing a chapter, recording an attempt on the course page and adding a free
  course leave the state as it was and show an error toast when their backend call
  fails (the three lemmas above). The quiz component does not: when its upsert resolves
  with an error, nothing is stored, and the component shows the result toast of a saved
  attempt and reports completion to the page; the results are on screen before any call
  is made.
\<close>

theorem handleSubmitQuiz_upsert_error:
  "failed (Resolved () (Some (BackendError ''23505''))) \<and>
   submit_enabled two_questions answered_all \<and>
   persisted (handleSubmitQuiz example_quiz two_questions ''2024-02-02T00:00:00.000Z''
      (Resolved (Some ''u1'') None) (Resolved (Some example_array_row) None)
      (Resolved () (Some (BackendError ''23505''))) answered_all) = [] \<and>
   toasts (handleSubmitQuiz example_quiz two_questions ''2024-02-02T00:00:00.000Z''
      (Resolved (Some ''u1'') None) (Resolved (Some example_array_row) None)
      (Resolved () (Some (BackendError ''23505''))) answered_all) =
     [Toast ''Quiz Completed'' ''You scored 50%. Keep practicing!'' Destructive] \<and>
   onQuizComplete_calls (handleSubmitQuiz example_quiz two_questions ''2024-02-02T00:00:00.000Z''
      (Resolved (Some ''u1'') None) (Resolved (Some example_array_row) None)
      (Resolved () (Some (BackendError ''23505''))) answered_all) = [(Some 50, False)] \<and>
   toasts (handleQuizComplete (Some ''c1'') (Some example_student) ''2024-02-02T00:00:00.000Z''
      (Resolved (Some example_array_row) None) (Resolved () (Some (BackendError ''23505'')))
      (Some 50) False example_quiz_page) =
     [Toast ''Error'' ''Failed to save quiz results.'' Destructive]"
  by code_simp

subsection \<open>The quiz flow\<close>

lemma reachable_invariant:
  assumes "reachable quiz questions s" and "questions \<noteq> []"
  shows "0 \<le> currentQuestionIndex s \<and> currentQuestionIndex s \<le> int (length questions) - 1 \<and>
         answered_before questions s"
  using assms
proof (induction rule: reachable.induct)
  case initial
  then show ?case by (simp add: QuizTaker_init_def answered_before_def)
next
  case (select_answer s q answer)
  then show ?case
    by (auto simp: handleAnswerChange_def answered_before_def update_conv' list_all_iff)
next
  case (click_next s)
  then have inv: "0 \<le> currentQuestionIndex s" "answered_before questions s" by simp_all
  from click_next.hyps(2) have lt: "currentQuestionIndex s < int (length questions) - 1"
    and cur: "canProceed questions s"
    by (auto simp: next_enabled_def next_offered_def question_view_def isLastQuestion_def
          currentQuestion_def split: if_splits)
  from cur inv(1) lt
  have ans: "map_of (answers s) (qq_id (questions ! nat (currentQuestionIndex s))) \<noteq> None"
    by (auto simp: canProceed_def currentQuestion_def split: option.splits if_splits)
  from inv(1) lt have len: "nat (currentQuestionIndex s) < length questions" by simp
  from inv(1) have suc: "nat (currentQuestionIndex s + 1) = Suc (nat (currentQuestionIndex s))"
    by simp
  have "answered_before questions (handleNext questions s)"
    using inv(2) ans lt len
    by (simp add: answered_before_def handleNext_def suc take_Suc_conv_app_nth)
  with inv lt show ?case by (simp add: handleNext_def)
next
  case (click_previous s)
  then have inv: "0 \<le> currentQuestionIndex s" "answered_before questions s"
    and pos: "currentQuestionIndex s \<noteq> 0"
    by (simp_all add: previous_enabled_def)
  have "set (take (nat (currentQuestionIndex s - 1)) questions) \<subseteq>
        set (take (nat (currentQuestionIndex s)) questions)"
    by (rule set_take_subset_set_take) simp
  with inv(2) have "answered_before questions (handlePrevious s)"
    by (auto simp: answered_before_def handlePrevious_def list_all_iff)
  with click_previous inv pos show ?case
    by (auto simp: handlePrevious_def)
next
  case (click_submit s now userR selectR upsertR)
  then show ?case
    using handleSubmitQuiz_local [of quiz questions now userR selectR upsertR s]
    by (simp add: answered_before_def)
qed

lemma two_questions_flow:
  "reachable quiz two_questions answered_first \<and> next_enabled two_questions answered_first \<and>
   reachable quiz two_questions answered_all \<and> submit_enabled two_questions answered_all"
proof -
  have r0: "reachable quiz two_questions QuizTaker_init"
    by (rule reachable.initial)
  have r1: "reachable quiz two_questions answered_first"
    unfolding answered_first_def
    by (rule reachable.select_answer [OF r0])
      (simp_all add: question_view_def currentQuestion_def QuizTaker_init_def two_questions_def)
  have n1: "next_enabled two_questions answered_first"
    by (simp add: next_enabled_def next_offered_def question_view_def currentQuestion_def
          isLastQuestion_def canProceed_def answered_first_def handleAnswerChange_def
          QuizTaker_init_def two_questions_def update_conv')
  have r2: "reachable quiz two_questions (handleNext two_questions answered_first)"
    by (rule reachable.click_next [OF r1 n1])
  have r3: "reachable quiz two_questions answered_all"
    unfolding answered_all_def
    by (rule reachable.select_answer [OF r2])
      (simp_all add: question_view_def currentQuestion_def handleNext_def answered_first_def
         handleAnswerChange_def QuizTaker_init_def two_questions_def)
  have s3: "submit_enabled two_questions answered_all"
    by (simp add: submit_enabled_def submit_offered_def question_view_def currentQuestion_def
          isLastQuestion_def canProceed_def answered_all_def answered_first_def handleNext_def
          handleAnswerChange_def QuizTaker_init_def two_questions_def update_conv')
  show ?thesis using r1 n1 r3 s3 by simp
qed

text \<open>
  C9. The quiz starts at index 0. In every reachable state of a quiz with at least one
  question the index lies between 0 and N - 1; an enabled Next raises it by one and is
  enabled only when the current question has a selected answer; an enabled Previous
  lowers it by one; Submit is offered only at index N - 1.
\<close>

theorem quiz_navigation:
  assumes "questions \<noteq> []" and "reachable quiz questions s"
  shows "currentQuestionIndex QuizTaker_init = 0 \<and>
         0 \<le> currentQuestionIndex s \<and> currentQuestionIndex s \<le> int (length questions) - 1 \<and>
         (next_enabled questions s \<longrightarrow>
            currentQuestionIndex (handleNext questions s) = currentQuestionIndex s + 1 \<and>
            (\<exists>q a. currentQuestion questions s = Some q \<and>
                   map_of (answers s) (qq_id q) = Some a \<and> a \<noteq> [])) \<and>
         (previous_enabled questions s \<longrightarrow>
            currentQuestionIndex (handlePrevious s) = currentQuestionIndex s - 1) \<and>
         (submit_offered questions s \<longrightarrow> currentQuestionIndex s = int (length questions) - 1)"
proof -
  from reachable_invariant [OF assms(2) assms(1)]
  have range: "0 \<le> currentQuestionIndex s" "currentQuestionIndex s \<le> int (length questions) - 1"
    by simp_all
  have nxt: "next_enabled questions s \<longrightarrow>
            currentQuestionIndex (handleNext questions s) = currentQuestionIndex s + 1 \<and>
            (\<exists>q a. currentQuestion questions s = Some q \<and>
                   map_of (answers s) (qq_id q) = Some a \<and> a \<noteq> [])"
    using range
    by (auto simp: next_enabled_def next_offered_def isLastQuestion_def handleNext_def
          canProceed_def split: option.splits)
  have prv: "previous_enabled questions s \<longrightarrow>
            currentQuestionIndex (handlePrevious s) = currentQuestionIndex s - 1"
    using range by (auto simp: previous_enabled_def handlePrevious_def)
  have sub: "submit_offered questions s \<longrightarrow> currentQuestionIndex s = int (length questions) - 1"
    by (simp add: submit_offered_def isLastQuestion_def)
  show ?thesis using range nxt prv sub by (simp add: QuizTaker_init_def)
qed

theorem quiz_navigation_witness:
  "two_questions \<noteq> [] \<and> reachable example_quiz two_questions answered_first \<and>
   next_enabled two_questions answered_first \<and>
   currentQuestionIndex answered_first = 0 \<and>
   currentQuestionIndex (handleNext two_questions answered_first) = 1"
proof -
  have ne: "two_questions \<noteq> []" by (simp add: two_questions_def)
  have r: "reachable example_quiz two_questions answered_first"
    and n: "next_enabled two_questions answered_first"
    using two_questions_flow [of example_quiz] by simp_all
  have i: "currentQuestionIndex answered_first = 0"
    by (simp add: answered_first_def handleAnswerChange_def QuizTaker_init_def)
  from quiz_navigation [OF ne r] n i
  have "currentQuestionIndex (handleNext two_questions answered_first) = 1" by simp
  with ne r n i show ?thesis by simp
qed

text \<open>
  C10. In every reachable state of a quiz with at least one question in which Submit is
  enabled, the answers hold an entry for every question.
\<close>

theorem submit_all_answered:
  assumes "questions \<noteq> []" and "reachable quiz questions s" and "submit_enabled questions s"
  shows "\<forall>q \<in> set questions. map_of (answers s) (qq_id q) \<noteq> None"
proof
  fix q assume "q \<in> set questions"
  then obtain i where i: "i < length questions" "q = questions ! i"
    by (auto simp: in_set_conv_nth)
  from reachable_invariant [OF assms(2) assms(1)]
  have range: "0 \<le> currentQuestionIndex s" and before: "answered_before questions s"
    by simp_all
  from assms(3) have last: "currentQuestionIndex s = int (length questions) - 1"
    and cur: "canProceed questions s"
    by (auto simp: submit_enabled_def submit_offered_def isLastQuestion_def)
  show "map_of (answers s) (qq_id q) \<noteq> None"
  proof (cases "int i < currentQuestionIndex s")
    case True
    with i have "q \<in> set (take (nat (currentQuestionIndex s)) questions)"
      by (auto simp: in_set_conv_nth intro!: exI [of _ i])
    with before show ?thesis
      by (simp add: answered_before_def list_all_iff)
  next
    case False
    with i last have "currentQuestionIndex s = int i" by simp
    with cur i show ?thesis
      by (auto simp: canProceed_def currentQuestion_def split: option.splits if_splits)
  qed
qed

theorem submit_all_answered_witness:
  "two_questions \<noteq> [] \<and> reachable example_quiz two_questions answered_all \<and>
   submit_enabled two_questions answered_all \<and>
   map_of (answers answered_all) (qq_id (example_question 0)) \<noteq> None \<and>
   map_of (answers answered_all) (qq_id (example_question 1)) \<noteq> None"
proof -
  have ne: "two_questions \<noteq> []" by (simp add: two_questions_def)
  have r: "reachable example_quiz two_questions answered_all"
    and e: "submit_enabled two_questions answered_all"
    using two_questions_flow [of example_quiz] by simp_all
  from submit_all_answered [OF ne r e]
  have "map_of (answers answered_all) (qq_id (example_question 0)) \<noteq> None \<and>
        map_of (answers answered_all) (qq_id (example_question 1)) \<noteq> None"
    by (simp add: two_questions_def)
  with ne r e show ?thesis by simp
qed

end
